theory Spec2Isabelle
  imports Complex_Main
begin

section \<open>Strings\<close>

text \<open>
  JavaScript strings are modelled as HOL strings; a character outside ASCII is written as
  the bytes of its UTF-8 encoding.  Case folding is the ASCII part of
  \<^verbatim>\<open>String.prototype.toLowerCase\<close>: the letters A to Z are mapped to a to z, every other
  character is kept.

  JavaScript numbers are IEEE doubles.  The model computes with exact reals: the rounding
  of each sum to the nearest double is not part of it.  The final clamp does not depend on
  the rounding, but the comparison of a computed score with a threshold, or of two computed
  scores in the sort, can: \<^verbatim>\<open>0.3 - 0.2\<close> is 0.09999999999999998 in the source and 1/10
  here.  So a score computed below may differ from the source's in the last place, and
  where its exact value sits on a threshold of a filter the source may decide the other
  way.  The properties of the filters are therefore stated for arbitrary lists of
  candidates, for the scores that the candidates carry however these were computed.  The
  scores that the concrete inputs of the search compute (0, 0.1, 0.45, 0.6, 0.65 and 0.8)
  are the ones that the source's double arithmetic gives as well.
\<close>

definition lowerChar :: "char \<Rightarrow> char" where
  "lowerChar c =
     (case map_of (zip ''ABCDEFGHIJKLMNOPQRSTUVWXYZ'' ''abcdefghijklmnopqrstuvwxyz'') c of
        Some d \<Rightarrow> d
      | None \<Rightarrow> c)"

definition toLowerCase :: "string \<Rightarrow> string" where
  "toLowerCase s = map lowerChar s"

fun startsWith :: "string \<Rightarrow> string \<Rightarrow> bool" where
  "startsWith s [] = True"
| "startsWith [] (p # ps) = False"
| "startsWith (c # cs) (p # ps) = (c = p \<and> startsWith cs ps)"

text \<open>\<^verbatim>\<open>s.includes(sub)\<close>: \<open>sub\<close> occurs in \<open>s\<close> as a contiguous substring.\<close>

fun js_includes :: "string \<Rightarrow> string \<Rightarrow> bool" where
  "js_includes [] sub = (sub = [])"
| "js_includes (c # cs) sub = (startsWith (c # cs) sub \<or> js_includes cs sub)"

text \<open>\<^verbatim>\<open>xs.join(sep)\<close>.\<close>

fun join :: "string \<Rightarrow> string list \<Rightarrow> string" where
  "join sep [] = []"
| "join sep [x] = x"
| "join sep (x # y # ys) = x @ sep @ join sep (y # ys)"

text \<open>Truthiness of an optional string: \<^verbatim>\<open>undefined\<close>, \<^verbatim>\<open>null\<close> and \<^verbatim>\<open>''\<close> are falsy.\<close>

fun truthy :: "string option \<Rightarrow> bool" where
  "truthy None = False"
| "truthy (Some s) = (s \<noteq> [])"

text \<open>\<^verbatim>\<open>x ? x.toLowerCase() : ''\<close>, also \<^verbatim>\<open>x?.toLowerCase() || ''\<close> and
  \<^verbatim>\<open>(x || '').toLowerCase()\<close>.\<close>

fun lowerOrEmpty :: "string option \<Rightarrow> string" where
  "lowerOrEmpty None = []"
| "lowerOrEmpty (Some s) = toLowerCase s"

text \<open>\<^verbatim>\<open>x || ''\<close>.\<close>

fun orEmpty :: "string option \<Rightarrow> string" where
  "orEmpty None = []"
| "orEmpty (Some s) = s"


section \<open>Data model\<close>

record coords =
  lat :: real
  lng :: real

text \<open>The caller's location object; \<^verbatim>\<open>null\<close> is \<open>None\<close> at the use sites.\<close>

record location =
  loc_coords :: "coords option"
  loc_name :: "string option"

text \<open>An observation of the remote database.  \<open>geojson\<close> holds the GeoJSON point
  \<^verbatim>\<open>coordinates\<close> as the pair (longitude, latitude), in the order of the array.\<close>

record observation =
  obs_id :: nat
  geojson :: "(real \<times> real) option"

text \<open>A taxon of the remote database.  The fields \<^verbatim>\<open>id\<close>, \<^verbatim>\<open>name\<close> and \<^verbatim>\<open>rank\<close>
  carry a prefix; a field the remote may leave out is an option.\<close>

record place =
  place_name :: "string option"

record establishment =
  est_means :: "string option"
  est_place :: "place option"

record taxon =
  taxon_id :: nat
  taxon_name :: "string option"
  preferred_common_name :: "string option"
  wikipedia_summary :: "string option"
  iconic_taxon_name :: "string option"
  taxon_rank :: "string option"
  rank_level :: "int option"
  establishment_means :: "establishment option"

record visualFeatures =
  colors :: "string list option"
  patterns :: "string list option"
  structures :: "string list option"
  distinctiveFeatures :: "string list option"

record specificIdentification =
  mostSpecificTaxon :: "string option"
  taxonomicLevel :: "string option"
  scientificName :: "string option"


text \<open>The taxonomic hints arrive either as the rank-to-guess object of the prompt or as
  an array; \<^verbatim>\<open>Object.values\<close> gives the guesses of both.\<close>

datatype taxonomicHints = HintsObject "(string \<times> string) list" | HintsArray "string list"

fun hintValues :: "taxonomicHints \<Rightarrow> string list" where
  "hintValues (HintsObject kvs) = map snd kvs"
| "hintValues (HintsArray hs) = hs"

text \<open>The feature record extracted by the vision model.\<close>

record features =
  category :: "string option"
  specificIdentification :: "specificIdentification option"
  taxonomicHints :: "taxonomicHints option"
  visualFeatures :: "visualFeatures option"
  possibleSpecies :: "string list option"
  searchTerms :: "string list option"
  confidence :: "real option"


section \<open>Scoring: \<^verbatim>\<open>calculateMatchScore\<close> (utils/inaturalistAPI.js)\<close>

definition isInAmazon :: "real \<Rightarrow> real \<Rightarrow> bool" where
  "isInAmazon la lo = (la \<ge> -9.5 \<and> la \<le> 5 \<and> lo \<ge> -79 \<and> lo \<le> -50)"

text \<open>\<^verbatim>\<open>obs.geojson && isInAmazon(obs.geojson.coordinates[1], obs.geojson.coordinates[0])\<close>\<close>

definition obsInAmazon :: "observation \<Rightarrow> bool" where
  "obsInAmazon obs =
     (case geojson obs of None \<Rightarrow> False | Some (lo, la) \<Rightarrow> isInAmazon la lo)"

text \<open>Factor 1: observations near the given location.\<close>

definition localObservationFactor :: "location option \<Rightarrow> observation list \<Rightarrow> real \<Rightarrow> real" where
  "localObservationFactor loc observations score =
     (case loc of
        None \<Rightarrow> score
      | Some l \<Rightarrow>
          if length observations > 0 then
            (let score1 = score + min 0.4 (real (length observations) * 0.05) in
             case loc_coords l of
               None \<Rightarrow> score1
             | Some c \<Rightarrow>
                 if isInAmazon (lat c) (lng c) \<and> list_ex obsInAmazon observations
                 then score1 + 0.25 else score1)
          else score)"

text \<open>Factor 2: category correspondence.\<close>

definition categoryFactor :: "taxon \<Rightarrow> features \<Rightarrow> real \<Rightarrow> real" where
  "categoryFactor taxon feats score =
     (if truthy (iconic_taxon_name taxon) \<and> truthy (category feats) then
        (let taxonCategory = lowerOrEmpty (iconic_taxon_name taxon);
             featureCategory = lowerOrEmpty (category feats)
         in if (taxonCategory = ''plantae'' \<and> featureCategory = ''plant'') \<or>
               (taxonCategory \<noteq> ''plantae'' \<and> featureCategory = ''animal'')
            then score + 0.15 else score)
      else score)"

text \<open>Factor 3: visual features.  Each loop carries the counters it updates.\<close>

definition allTextOf :: "taxon \<Rightarrow> string" where
  "allTextOf taxon =
     lowerOrEmpty (wikipedia_summary taxon) @ '' '' @ lowerOrEmpty (taxon_name taxon) @ '' '' @
     lowerOrEmpty (preferred_common_name taxon)"

fun colorLoop :: "string \<Rightarrow> string list \<Rightarrow> nat \<times> bool \<Rightarrow> nat \<times> bool" where
  "colorLoop allText [] st = st"
| "colorLoop allText (color # rest) (visualMatchCount, colorMatched) =
     (if js_includes allText (toLowerCase color)
      then colorLoop allText rest (visualMatchCount + 2, True)
      else colorLoop allText rest (visualMatchCount, colorMatched))"

fun patternLoop :: "string \<Rightarrow> string list \<Rightarrow> nat \<Rightarrow> nat" where
  "patternLoop allText [] visualMatchCount = visualMatchCount"
| "patternLoop allText (pattern # rest) visualMatchCount =
     (if js_includes allText (toLowerCase pattern)
      then patternLoop allText rest (visualMatchCount + 1)
      else patternLoop allText rest visualMatchCount)"

fun distinctiveLoop :: "string \<Rightarrow> string list \<Rightarrow> nat \<times> nat \<Rightarrow> nat \<times> nat" where
  "distinctiveLoop allText [] st = st"
| "distinctiveLoop allText (feature # rest) (visualMatchCount, visualMismatchCount) =
     (if js_includes allText (toLowerCase feature)
      then distinctiveLoop allText rest (visualMatchCount + 2, visualMismatchCount)
      else distinctiveLoop allText rest (visualMatchCount, visualMismatchCount + 1))"

text \<open>The pair (visualMatchCount, visualMismatchCount) after the three checks.\<close>

definition visualCounts :: "taxon \<Rightarrow> visualFeatures \<Rightarrow> nat \<times> nat" where
  "visualCounts taxon vf =
     (let allText = allTextOf taxon;
          (m1, mm1) =
            (case colors vf of
               None \<Rightarrow> (0, 0)
             | Some cs \<Rightarrow>
                 if length cs > 0 then
                   (let (m, colorMatched) = colorLoop allText cs (0, False)
                    in if \<not> colorMatched \<and> length cs > 1 then (m, 5) else (m, 0))
                 else (0, 0));
          m2 = (case patterns vf of None \<Rightarrow> m1 | Some ps \<Rightarrow> patternLoop allText ps m1)
      in case distinctiveFeatures vf of
           None \<Rightarrow> (m2, mm1)
         | Some ds \<Rightarrow> distinctiveLoop allText ds (m2, mm1))"

definition visualFactor :: "taxon \<Rightarrow> features \<Rightarrow> real \<Rightarrow> real" where
  "visualFactor taxon feats score =
     (case visualFeatures feats of
        None \<Rightarrow> score
      | Some vf \<Rightarrow>
          (let (visualMatchCount, visualMismatchCount) = visualCounts taxon vf
           in score + min 0.4 (real visualMatchCount * 0.1)
                    - min 0.7 (real visualMismatchCount * 0.15)))"

text \<open>Factor 4: taxonomic specificity.  \<^verbatim>\<open>if (taxon.rank_level)\<close> is false for a missing
  level and for the level 0.\<close>

definition specificityFactor :: "taxon \<Rightarrow> real \<Rightarrow> real" where
  "specificityFactor taxon score =
     (case rank_level taxon of
        None \<Rightarrow> score
      | Some r \<Rightarrow>
          if r = 0 then score
          else
            (let score1 =
                   (if r \<le> 30 then score - 0.4
                    else if r \<le> 40 then score - 0.2
                    else if r \<ge> 70 then score + 0.5
                    else if r \<ge> 60 then score + 0.3
                    else if r \<ge> 50 then score + 0.15
                    else score)
             in if truthy (taxon_name taxon) \<and> js_includes (orEmpty (taxon_name taxon)) '' ''
                then score1 + 0.2 else score1))"

text \<open>The score accumulated by the base value and the four factors.\<close>

definition accumulatedScore ::
  "taxon \<Rightarrow> observation list \<Rightarrow> features \<Rightarrow> location option \<Rightarrow> real" where
  "accumulatedScore taxon observations feats loc =
     specificityFactor taxon
       (visualFactor taxon feats
          (categoryFactor taxon feats
             (localObservationFactor loc observations 0.3)))"

text \<open>\<^verbatim>\<open>taxon.rank_level <= k\<close> and \<^verbatim>\<open>taxon.rank_level >= k\<close>: false for a missing level.\<close>

definition rankAtMost :: "taxon \<Rightarrow> int \<Rightarrow> bool" where
  "rankAtMost taxon k = (case rank_level taxon of None \<Rightarrow> False | Some r \<Rightarrow> r \<le> k)"

definition rankAtLeast :: "taxon \<Rightarrow> int \<Rightarrow> bool" where
  "rankAtLeast taxon k = (case rank_level taxon of None \<Rightarrow> False | Some r \<Rightarrow> r \<ge> k)"

text \<open>The visual-detail condition shared by both branches of the override.\<close>

definition hasVisualDetail :: "features \<Rightarrow> bool" where
  "hasVisualDetail feats =
     (case visualFeatures feats of
        None \<Rightarrow> False
      | Some vf \<Rightarrow>
          (case colors vf of None \<Rightarrow> False | Some cs \<Rightarrow> length cs > 1) \<or>
          (case patterns vf of None \<Rightarrow> False | Some ps \<Rightarrow> length ps > 0))"

definition genericityOverride :: "taxon \<Rightarrow> features \<Rightarrow> real \<Rightarrow> real" where
  "genericityOverride taxon feats score =
     (if rankAtMost taxon 30 \<and> hasVisualDetail feats then max 0 (score - 0.9)
      else if rankAtMost taxon 40 \<and> hasVisualDetail feats then max 0 (score - 0.8)
      else score)"

definition regionPenalty ::
  "taxon \<Rightarrow> observation list \<Rightarrow> location option \<Rightarrow> real \<Rightarrow> real" where
  "regionPenalty taxon observations loc score =
     (case loc of
        None \<Rightarrow> score
      | Some l \<Rightarrow>
          (case loc_coords l of
             None \<Rightarrow> score
           | Some c \<Rightarrow>
               (let isLocationAmazon = isInAmazon (lat c) (lng c);
                    isAmazonianTaxon =
                      (truthy (taxon_name taxon) \<and>
                       (js_includes (lowerOrEmpty (wikipedia_summary taxon)) ''amazon'' \<or>
                        js_includes (lowerOrEmpty (preferred_common_name taxon)) ''amazon''))
                in if isLocationAmazon \<and> \<not> isAmazonianTaxon \<and> rankAtLeast taxon 50 then
                     (if \<not> list_ex obsInAmazon observations then score - 0.7 else score)
                   else score)))"

definition calculateMatchScore ::
  "taxon \<Rightarrow> observation list \<Rightarrow> features \<Rightarrow> location option \<Rightarrow> real" where
  "calculateMatchScore taxon observations feats loc =
     (let score = accumulatedScore taxon observations feats loc;
          score = genericityOverride taxon feats score;
          score = regionPenalty taxon observations loc score
      in min 1 (max 0 score))"


section \<open>Known Amazonian beetles: \<^verbatim>\<open>checkForKnownAmazonianBeetles\<close> (utils/inaturalistAPI.js)\<close>

text \<open>The callback of \<^verbatim>\<open>some\<close>: \<^verbatim>\<open>hint && A || B || C\<close> parses as
  \<^verbatim>\<open>(hint && A) || B || C\<close>.\<close>

definition hintIsInsect :: "string \<Rightarrow> bool" where
  "hintIsInsect hint =
     ((hint \<noteq> [] \<and> js_includes (toLowerCase hint) ''insect'') \<or>
      js_includes (toLowerCase hint) ''beetle'' \<or>
      js_includes (toLowerCase hint) ''coleoptera'')"

definition isInsect :: "features \<Rightarrow> bool" where
  "isInsect feats =
     (category feats = Some ''insect'' \<or>
      (case taxonomicHints feats of
         None \<Rightarrow> False
       | Some hints \<Rightarrow> list_ex hintIsInsect (hintValues hints)))"

text \<open>\<^verbatim>\<open>features.visualFeatures?.field || []\<close>\<close>

definition visualList :: "(visualFeatures \<Rightarrow> string list option) \<Rightarrow> features \<Rightarrow> string list" where
  "visualList field feats =
     (case visualFeatures feats of
        None \<Rightarrow> []
      | Some vf \<Rightarrow> (case field vf of None \<Rightarrow> [] | Some xs \<Rightarrow> xs))"

definition visualDescription :: "features \<Rightarrow> string" where
  "visualDescription feats =
     join '' ''
       (map toLowerCase
          (visualList colors feats @ visualList patterns feats @
           visualList structures feats @ visualList distinctiveFeatures feats))"

text \<open>The six keyword rules, in the order of their \<^verbatim>\<open>push\<close>.\<close>

definition knownBeetleMatches :: "string \<Rightarrow> string list" where
  "knownBeetleMatches vd =
     (if js_includes vd ''metallic'' \<and>
         (js_includes vd ''green'' \<or> js_includes vd ''blue'' \<or> js_includes vd ''bronze'') \<and>
         (js_includes vd ''horn'' \<or> js_includes vd ''pronotum'' \<or> js_includes vd ''abdomen'')
      then [''Phanaeus lancifer''] else []) @
     (if (js_includes vd ''horn'' \<or> js_includes vd ''rhinoceros'') \<and>
         js_includes vd ''large'' \<and>
         (js_includes vd ''black'' \<or> js_includes vd ''brown'')
      then [''Dynastes hercules''] else []) @
     (if js_includes vd ''horn'' \<and>
         (js_includes vd ''pronotum'' \<or> js_includes vd ''thorax'') \<and>
         (js_includes vd ''black'' \<or> js_includes vd ''brown'')
      then [''Megasoma actaeon''] else []) @
     (if js_includes vd ''large'' \<and>
         (js_includes vd ''titan'' \<or> js_includes vd ''gigant'') \<and>
         (js_includes vd ''brown'' \<or> js_includes vd ''mandible'')
      then [''Titanus giganteus''] else []) @
     (if (js_includes vd ''snout'' \<or> js_includes vd ''rostrum'') \<and>
         js_includes vd ''elongated''
      then [''Curculionidae''] else []) @
     (if (js_includes vd ''long antennae'' \<or> js_includes vd ''longhorn'') \<and>
         (js_includes vd ''cylindrical'' \<or> js_includes vd ''elongated'')
      then [''Cerambycidae''] else [])"

text \<open>\<^verbatim>\<open>location && location.coords && isInAmazon(...)\<close>\<close>

definition locationInAmazon :: "location option \<Rightarrow> bool" where
  "locationInAmazon loc =
     (case loc of
        None \<Rightarrow> False
      | Some l \<Rightarrow>
          (case loc_coords l of None \<Rightarrow> False | Some c \<Rightarrow> isInAmazon (lat c) (lng c)))"

definition checkForKnownAmazonianBeetles :: "features \<Rightarrow> location option \<Rightarrow> string list" where
  "checkForKnownAmazonianBeetles feats loc =
     (let isAmazonian = locationInAmazon loc
      in if \<not> isAmazonian \<and> loc \<noteq> None then []
         else if \<not> isInsect feats then []
         else knownBeetleMatches (visualDescription feats))"


section \<open>Region classification (the if-chains of \<^verbatim>\<open>formatLocationMatch\<close> and of the prompt)\<close>

text \<open>\<^verbatim>\<open>formatLocationMatch\<close>, the chain that sets \<^verbatim>\<open>regionDescription\<close>.\<close>

definition regionDescription :: "real \<Rightarrow> real \<Rightarrow> string" where
  "regionDescription la lo =
     (if la \<ge> -9.5 \<and> la \<le> 5 \<and> lo \<ge> -79 \<and> lo \<le> -50 then ''the Amazon rainforest''
      else if la \<ge> -30 \<and> la \<le> -5 \<and> lo \<ge> -55 \<and> lo \<le> -35 then ''the Atlantic Forest (Mata Atl'' @ [CHR 0xC3, CHR 0xA2] @ ''ntica)''
      else if la \<ge> -24 \<and> la \<le> -5 \<and> lo \<ge> -60 \<and> lo \<le> -42 then ''the Cerrado savanna''
      else if la \<ge> -20 \<and> la \<le> -15 \<and> lo \<ge> -58 \<and> lo \<le> -54 then ''the Pantanal wetlands''
      else if la \<ge> -15 \<and> la \<le> -3 \<and> lo \<ge> -45 \<and> lo \<le> -37 then ''the Caatinga dry forest''
      else
        (if la \<ge> 15 \<and> la \<le> 75 \<and> lo \<ge> -170 \<and> lo \<le> -50 then ''North America''
         else if la \<le> 15 \<and> la \<ge> -55 \<and> lo \<ge> -80 \<and> lo \<le> -35 then ''South America''
         else if la \<ge> 35 \<and> la \<le> 70 \<and> lo \<ge> -10 \<and> lo \<le> 40 then ''Europe''
         else if la \<ge> -35 \<and> la \<le> 37 \<and> lo \<ge> -20 \<and> lo \<le> 60 then ''Africa''
         else if la \<ge> -10 \<and> la \<le> 55 \<and> lo \<ge> 60 \<and> lo \<le> 150 then ''Asia''
         else if la \<le> -10 \<and> la \<ge> -45 \<and> lo \<ge> 110 \<and> lo \<le> 180 then ''Australia''
         else ''this region''))"

text \<open>The chain of the prompt that sets \<^verbatim>\<open>regionName\<close>.\<close>

definition regionName :: "real \<Rightarrow> real \<Rightarrow> string" where
  "regionName la lo =
     (if la \<ge> -9.5 \<and> la \<le> 5 \<and> lo \<ge> -79 \<and> lo \<le> -50 then ''Amazon rainforest''
      else if la \<ge> -30 \<and> la \<le> -5 \<and> lo \<ge> -55 \<and> lo \<le> -35 then ''Atlantic Forest''
      else if la \<ge> -24 \<and> la \<le> -5 \<and> lo \<ge> -60 \<and> lo \<le> -42 then ''Cerrado savanna''
      else if la \<ge> -20 \<and> la \<le> -15 \<and> lo \<ge> -58 \<and> lo \<le> -54 then ''Pantanal wetlands''
      else if la \<ge> -15 \<and> la \<le> -3 \<and> lo \<ge> -45 \<and> lo \<le> -37 then ''Caatinga dry forest''
      else ''unknown region'')"

text \<open>The reading of the specification: an ordered table of named rectangles and a
  first-match scan over it.\<close>

record box =
  box_name :: string
  minLat :: real
  maxLat :: real
  minLng :: real
  maxLng :: real

definition inBox :: "box \<Rightarrow> real \<Rightarrow> real \<Rightarrow> bool" where
  "inBox b la lo = (minLat b \<le> la \<and> la \<le> maxLat b \<and> minLng b \<le> lo \<and> lo \<le> maxLng b)"

definition classifyRegion :: "box list \<Rightarrow> string \<Rightarrow> real \<Rightarrow> real \<Rightarrow> string" where
  "classifyRegion boxes dflt la lo =
     (case find (\<lambda>b. inBox b la lo) boxes of Some b \<Rightarrow> box_name b | None \<Rightarrow> dflt)"

definition formatBiomeBoxes :: "box list" where
  "formatBiomeBoxes =
     [\<lparr>box_name = ''the Amazon rainforest'', minLat = -9.5, maxLat = 5, minLng = -79, maxLng = -50\<rparr>,
      \<lparr>box_name = ''the Atlantic Forest (Mata Atl'' @ [CHR 0xC3, CHR 0xA2] @ ''ntica)'',
         minLat = -30, maxLat = -5, minLng = -55, maxLng = -35\<rparr>,
      \<lparr>box_name = ''the Cerrado savanna'', minLat = -24, maxLat = -5, minLng = -60, maxLng = -42\<rparr>,
      \<lparr>box_name = ''the Pantanal wetlands'', minLat = -20, maxLat = -15, minLng = -58, maxLng = -54\<rparr>,
      \<lparr>box_name = ''the Caatinga dry forest'', minLat = -15, maxLat = -3, minLng = -45, maxLng = -37\<rparr>]"

definition promptBoxes :: "box list" where
  "promptBoxes =
     [\<lparr>box_name = ''Amazon rainforest'', minLat = -9.5, maxLat = 5, minLng = -79, maxLng = -50\<rparr>,
      \<lparr>box_name = ''Atlantic Forest'', minLat = -30, maxLat = -5, minLng = -55, maxLng = -35\<rparr>,
      \<lparr>box_name = ''Cerrado savanna'', minLat = -24, maxLat = -5, minLng = -60, maxLng = -42\<rparr>,
      \<lparr>box_name = ''Pantanal wetlands'', minLat = -20, maxLat = -15, minLng = -58, maxLng = -54\<rparr>,
      \<lparr>box_name = ''Caatinga dry forest'', minLat = -15, maxLat = -3, minLng = -45, maxLng = -37\<rparr>]"

definition continentBoxes :: "box list" where
  "continentBoxes =
     [\<lparr>box_name = ''North America'', minLat = 15, maxLat = 75, minLng = -170, maxLng = -50\<rparr>,
      \<lparr>box_name = ''South America'', minLat = -55, maxLat = 15, minLng = -80, maxLng = -35\<rparr>,
      \<lparr>box_name = ''Europe'', minLat = 35, maxLat = 70, minLng = -10, maxLng = 40\<rparr>,
      \<lparr>box_name = ''Africa'', minLat = -35, maxLat = 37, minLng = -20, maxLng = 60\<rparr>,
      \<lparr>box_name = ''Asia'', minLat = -10, maxLat = 55, minLng = 60, maxLng = 150\<rparr>,
      \<lparr>box_name = ''Australia'', minLat = -45, maxLat = -10, minLng = 110, maxLng = 180\<rparr>]"

definition locationMatchBoxes :: "box list" where
  "locationMatchBoxes = formatBiomeBoxes @ continentBoxes"


section \<open>The remote observation database\<close>

text \<open>A thrown JavaScript error, by its constructor and message.\<close>

datatype js_error = Error string | ReferenceError string | TypeError string

text \<open>The remote database as the answers of the fetching functions of
  utils/inaturalistAPI.js: each wraps one HTTP request and either returns the list (or
  the taxon) of the response or throws.  The arguments are the ones the callers pass
  (query and page size; taxon id, latitude, longitude and radius; taxon id and page size;
  taxon id).\<close>

record inaturalist =
  searchTaxaByQuery :: "string \<Rightarrow> nat \<Rightarrow> js_error + taxon list"
  getNearbyObservationsForTaxon :: "nat \<Rightarrow> real \<Rightarrow> real \<Rightarrow> real \<Rightarrow> js_error + observation list"
  getObservationsByTaxon :: "nat \<Rightarrow> nat \<Rightarrow> js_error + observation list"
  getTaxonById :: "nat \<Rightarrow> js_error + taxon"


section \<open>Geographic data: \<^verbatim>\<open>getTaxonGeographicData\<close> (utils/inaturalistAPI.js)\<close>

definition determineRegionFromCoordinates :: "real \<Rightarrow> real \<Rightarrow> string option" where
  "determineRegionFromCoordinates latitude longitude =
     (if latitude \<ge> 15 \<and> latitude \<le> 75 \<and> longitude \<ge> -170 \<and> longitude \<le> -50
      then Some ''North America''
      else if latitude \<le> 15 \<and> latitude \<ge> -55 \<and> longitude \<ge> -80 \<and> longitude \<le> -35
      then Some ''South America''
      else if latitude \<ge> 35 \<and> latitude \<le> 70 \<and> longitude \<ge> -10 \<and> longitude \<le> 40
      then Some ''Europe''
      else if latitude \<ge> -35 \<and> latitude \<le> 37 \<and> longitude \<ge> -20 \<and> longitude \<le> 60
      then Some ''Africa''
      else if latitude \<ge> -10 \<and> latitude \<le> 55 \<and> longitude \<ge> 60 \<and> longitude \<le> 150
      then Some ''Asia''
      else if latitude \<le> -10 \<and> latitude \<ge> -45 \<and> longitude \<ge> 110 \<and> longitude \<le> 180
      then Some ''Australia''
      else if latitude \<le> -60 then Some ''Antarctica''
      else None)"

definition mapPlaceToRegion :: "place \<Rightarrow> string" where
  "mapPlaceToRegion p =
     (let placeNameLower = lowerOrEmpty (place_name p)
      in if js_includes placeNameLower ''north america'' \<or> js_includes placeNameLower ''usa'' \<or>
            js_includes placeNameLower ''canada'' \<or> js_includes placeNameLower ''mexico''
         then ''North America''
         else if js_includes placeNameLower ''south america'' \<or>
                 js_includes placeNameLower ''brazil'' \<or> js_includes placeNameLower ''argentina''
         then ''South America''
         else if js_includes placeNameLower ''europe'' then ''Europe''
         else if js_includes placeNameLower ''africa'' then ''Africa''
         else if js_includes placeNameLower ''asia'' \<or> js_includes placeNameLower ''china'' \<or>
                 js_includes placeNameLower ''india'' \<or> js_includes placeNameLower ''japan''
         then ''Asia''
         else if js_includes placeNameLower ''australia'' \<or> js_includes placeNameLower ''oceania''
         then ''Australia''
         else if js_includes placeNameLower ''antarctica'' then ''Antarctica''
         else ''Unknown'')"

text \<open>The regions pushed from the taxon's establishment metadata: the pair
  (nativeRegions, introducedRegions) before the histogram.\<close>

definition establishmentRegions :: "taxon \<Rightarrow> string list \<times> string list" where
  "establishmentRegions taxonData =
     (case establishment_means taxonData of
        None \<Rightarrow> ([], [])
      | Some em \<Rightarrow>
          if est_means em = Some ''native'' then
            (case est_place em of None \<Rightarrow> ([], []) | Some p \<Rightarrow> ([mapPlaceToRegion p], []))
          else if est_means em = Some ''introduced'' then
            (case est_place em of None \<Rightarrow> ([], []) | Some p \<Rightarrow> ([], [mapPlaceToRegion p]))
          else ([], []))"

text \<open>\<^verbatim>\<open>regionCounts\<close> is an object used as a dictionary; its keys keep their insertion
  order, which \<^verbatim>\<open>Object.entries\<close> and the stable sort expose, so it is an association
  list.  \<^verbatim>\<open>regionCounts[region] = (regionCounts[region] || 0) + 1\<close>:\<close>

fun countRegion :: "string \<Rightarrow> (string \<times> nat) list \<Rightarrow> (string \<times> nat) list" where
  "countRegion region [] = [(region, 1)]"
| "countRegion region ((k, n) # rest) =
     (if k = region then (k, n + 1) # rest else (k, n) # countRegion region rest)"

fun regionCountsLoop :: "observation list \<Rightarrow> (string \<times> nat) list \<Rightarrow> (string \<times> nat) list" where
  "regionCountsLoop [] regionCounts = regionCounts"
| "regionCountsLoop (obs # rest) regionCounts =
     (case geojson obs of
        None \<Rightarrow> regionCountsLoop rest regionCounts
      | Some (longitude, latitude) \<Rightarrow>
          (case determineRegionFromCoordinates latitude longitude of
             None \<Rightarrow> regionCountsLoop rest regionCounts
           | Some region \<Rightarrow> regionCountsLoop rest (countRegion region regionCounts)))"

definition densitiesOf :: "(string \<times> nat) list \<Rightarrow> (string \<times> real) list" where
  "densitiesOf regionCounts =
     (let totalObservations = sum_list (map snd regionCounts)
      in map (\<lambda>(region, count). (region, real count / real totalObservations)) regionCounts)"

text \<open>\<^verbatim>\<open>Object.entries(densities).sort((a, b) => b[1] - a[1])\<close>: a stable sort by
  descending density.\<close>

definition sortedRegionsOf :: "(string \<times> real) list \<Rightarrow> (string \<times> real) list" where
  "sortedRegionsOf densities = sort_key (\<lambda>(region, d). - d) densities"

text \<open>The \<^verbatim>\<open>forEach\<close> over \<^verbatim>\<open>sortedRegions.slice(1)\<close>.\<close>

fun classifyRest ::
  "(string \<times> real) list \<Rightarrow> string list \<times> string list \<Rightarrow> string list \<times> string list" where
  "classifyRest [] st = st"
| "classifyRest ((region, d) # rest) (nativeRegions, introducedRegions) =
     (if d > 0.15 then classifyRest rest (nativeRegions @ [region], introducedRegions)
      else if d > 0.05 then classifyRest rest (nativeRegions, introducedRegions @ [region])
      else classifyRest rest (nativeRegions, introducedRegions))"

text \<open>The returned object, without the fields that copy the taxon and the observations
  (names, habitat, observation points, photos).\<close>

record geographicData =
  regions :: "string list"
  density :: "(string \<times> real) list"
  nativeRegions :: "string list"
  introducedRegions :: "string list"

definition geographicDataOf :: "taxon \<Rightarrow> observation list \<Rightarrow> geographicData" where
  "geographicDataOf taxonData observations =
     (let (native0, introduced0) = establishmentRegions taxonData
      in if length native0 = 0 \<and> length observations > 0 then
           (let regionCounts = regionCountsLoop observations [];
                densities = densitiesOf regionCounts;
                sortedRegions = sortedRegionsOf densities;
                (native, introduced) =
                  (case sortedRegions of
                     [] \<Rightarrow> (native0, introduced0)
                   | (topRegion, d) # rest \<Rightarrow>
                       classifyRest rest (native0 @ [topRegion], introduced0))
            in \<lparr>regions = map fst densities, density = densities,
                 nativeRegions = native, introducedRegions = introduced\<rparr>)
         else \<lparr>regions = [''Not available''], density = [],
                nativeRegions = [], introducedRegions = []\<rparr>)"

definition getTaxonGeographicData :: "inaturalist \<Rightarrow> nat \<Rightarrow> js_error + geographicData" where
  "getTaxonGeographicData db taxonId =
     (case getTaxonById db taxonId of
        Inl e \<Rightarrow> Inl e
      | Inr taxonData \<Rightarrow>
          (case getObservationsByTaxon db taxonId 100 of
             Inl e \<Rightarrow> Inl e
           | Inr observations \<Rightarrow> Inr (geographicDataOf taxonData observations)))"


section \<open>Candidate search: \<^verbatim>\<open>searchObservationsByFeatures\<close> (utils/inaturalistAPI.js)\<close>

text \<open>The basic color names pushed for one color descriptor, in the order of the tests.\<close>

definition primaryColorsOfColor :: "string \<Rightarrow> string list" where
  "primaryColorsOfColor color =
     (let colorLower = toLowerCase color
      in (if js_includes colorLower ''black'' then [''black''] else []) @
         (if js_includes colorLower ''white'' then [''white''] else []) @
         (if js_includes colorLower ''red'' then [''red''] else []) @
         (if js_includes colorLower ''blue'' then [''blue''] else []) @
         (if js_includes colorLower ''green'' then [''green''] else []) @
         (if js_includes colorLower ''yellow'' then [''yellow''] else []) @
         (if js_includes colorLower ''orange'' then [''orange''] else []) @
         (if js_includes colorLower ''brown'' then [''brown''] else []) @
         (if js_includes colorLower ''grey'' \<or> js_includes colorLower ''gray'' then [''gray''] else []) @
         (if js_includes colorLower ''purple'' then [''purple''] else []) @
         (if js_includes colorLower ''metallic'' then [''metallic''] else []))"

text \<open>\<^verbatim>\<open>primaryColors\<close> after the loop over \<^verbatim>\<open>visualFeatures.colors\<close>.\<close>

definition extractPrimaryColors :: "features \<Rightarrow> string list" where
  "extractPrimaryColors feats =
     (case visualFeatures feats of
        None \<Rightarrow> []
      | Some vf \<Rightarrow>
          (case colors vf of
             None \<Rightarrow> []
           | Some cs \<Rightarrow> concat (map primaryColorsOfColor cs)))"

definition regionPrefix :: "location option \<Rightarrow> string" where
  "regionPrefix loc =
     (case loc of
        None \<Rightarrow> []
      | Some l \<Rightarrow>
          (case loc_coords l of
             None \<Rightarrow> []
           | Some c \<Rightarrow>
               if isInAmazon (lat c) (lng c) then ''amaz'' @ [CHR 0xC3, CHR 0xB4] @ ''nia ''
               else if lat c \<ge> -30 \<and> lat c \<le> -5 \<and> lng c \<ge> -55 \<and> lng c \<le> -35
               then ''mata atl'' @ [CHR 0xC3, CHR 0xA2] @ ''ntica ''
               else if lat c \<ge> -24 \<and> lat c \<le> -5 \<and> lng c \<ge> -60 \<and> lng c \<le> -42
               then ''cerrado ''
               else []))"

text \<open>The queries pushed for a list of terms: each term with the region prefix first, when
  there is one, then the bare term.\<close>

definition queriesFor :: "string \<Rightarrow> string list \<Rightarrow> string list" where
  "queriesFor prefix terms =
     concat (map (\<lambda>term. (if prefix \<noteq> [] then [prefix @ term] else []) @ [term]) terms)"

text \<open>The queries behind \<^verbatim>\<open>searchPromises\<close>: up to three search terms, up to two hints.
  The hints are only read when they are an array (an object has no \<^verbatim>\<open>length\<close>).\<close>

definition searchQueries :: "features \<Rightarrow> location option \<Rightarrow> string list" where
  "searchQueries feats loc =
     (case searchTerms feats of
        None \<Rightarrow> []
      | Some ts \<Rightarrow> if length ts > 0 then queriesFor (regionPrefix loc) (take 3 ts) else []) @
     (case taxonomicHints feats of
        Some (HintsArray hs) \<Rightarrow>
          if length hs > 0 then queriesFor (regionPrefix loc) (take 2 hs) else []
      | _ \<Rightarrow> [])"

text \<open>\<^verbatim>\<open>await Promise.all(promises)\<close>: the list of the results, or the first rejection in
  the order of the list.\<close>

fun awaitAll :: "('e + 'a) list \<Rightarrow> 'e + 'a list" where
  "awaitAll [] = Inr []"
| "awaitAll (r # rs) =
     (case r of
        Inl e \<Rightarrow> Inl e
      | Inr x \<Rightarrow> (case awaitAll rs of Inl e \<Rightarrow> Inl e | Inr xs \<Rightarrow> Inr (x # xs)))"

text \<open>The merge carries \<^verbatim>\<open>allTaxa\<close> and \<^verbatim>\<open>seenTaxonIds\<close>.  Priority results are put
  in front (\<^verbatim>\<open>unshift\<close>), the others at the end (\<^verbatim>\<open>push\<close>).\<close>

fun unshiftNew :: "taxon list \<Rightarrow> taxon list \<times> nat set \<Rightarrow> taxon list \<times> nat set" where
  "unshiftNew [] st = st"
| "unshiftNew (t # ts) (allTaxa, seenTaxonIds) =
     (if taxon_id t \<in> seenTaxonIds then unshiftNew ts (allTaxa, seenTaxonIds)
      else unshiftNew ts (t # allTaxa, insert (taxon_id t) seenTaxonIds))"

fun pushNew :: "taxon list \<Rightarrow> taxon list \<times> nat set \<Rightarrow> taxon list \<times> nat set" where
  "pushNew [] st = st"
| "pushNew (t # ts) (allTaxa, seenTaxonIds) =
     (if taxon_id t \<in> seenTaxonIds then pushNew ts (allTaxa, seenTaxonIds)
      else pushNew ts (allTaxa @ [t], insert (taxon_id t) seenTaxonIds))"

text \<open>The loop over the known-beetle names; a failed search is logged and skipped.\<close>

fun beetleLoop ::
  "inaturalist \<Rightarrow> string list \<Rightarrow> taxon list \<times> nat set \<Rightarrow> taxon list \<times> nat set" where
  "beetleLoop db [] st = st"
| "beetleLoop db (beetleName # rest) st =
     (case searchTaxaByQuery db beetleName 3 of
        Inl e \<Rightarrow> beetleLoop db rest st
      | Inr beetleResults \<Rightarrow> beetleLoop db rest (unshiftNew beetleResults st))"

text \<open>\<^verbatim>\<open>allTaxa\<close> after the merge, or the rejection of a search.\<close>

definition mergedTaxa :: "inaturalist \<Rightarrow> features \<Rightarrow> location option \<Rightarrow> js_error + taxon list" where
  "mergedTaxa db feats loc =
     (let amazonBeetles = checkForKnownAmazonianBeetles feats loc
      in case awaitAll (map (\<lambda>q. searchTaxaByQuery db q 5) (searchQueries feats loc)) of
           Inl e \<Rightarrow> Inl e
         | Inr searchResults \<Rightarrow>
             Inr (fst (pushNew (concat searchResults) (beetleLoop db amazonBeetles ([], {})))))"

record candidate =
  cand_taxon :: taxon
  cand_observations :: "observation list"
  matchScore :: real

definition fetchObservations ::
  "inaturalist \<Rightarrow> location option \<Rightarrow> taxon \<Rightarrow> js_error + observation list" where
  "fetchObservations db loc t =
     (case loc of
        None \<Rightarrow> getObservationsByTaxon db (taxon_id t) 10
      | Some l \<Rightarrow>
          (case loc_coords l of
             None \<Rightarrow> getObservationsByTaxon db (taxon_id t) 10
           | Some c \<Rightarrow> getNearbyObservationsForTaxon db (taxon_id t) (lat c) (lng c) 100))"

text \<open>The loop over \<^verbatim>\<open>allTaxa.slice(0, 20)\<close>; a failed fetch skips the taxon.\<close>

fun enrichLoop ::
  "inaturalist \<Rightarrow> features \<Rightarrow> location option \<Rightarrow> taxon list \<Rightarrow> candidate list" where
  "enrichLoop db feats loc [] = []"
| "enrichLoop db feats loc (t # ts) =
     (case fetchObservations db loc t of
        Inl e \<Rightarrow> enrichLoop db feats loc ts
      | Inr observations \<Rightarrow>
          \<lparr>cand_taxon = t, cand_observations = take 5 observations,
           matchScore = calculateMatchScore t observations feats loc\<rparr> #
          enrichLoop db feats loc ts)"

text \<open>\<^verbatim>\<open>xs.sort((a, b) => b.matchScore - a.matchScore)\<close>: the stable sort by descending
  score.\<close>

definition sortByScore :: "candidate list \<Rightarrow> candidate list" where
  "sortByScore xs = sort_key (\<lambda>c. - matchScore c) xs"

text \<open>\<^verbatim>\<open>taxaWithObservations\<close> after the sort.\<close>

definition taxaWithObservations ::
  "inaturalist \<Rightarrow> features \<Rightarrow> location option \<Rightarrow> js_error + candidate list" where
  "taxaWithObservations db feats loc =
     (case mergedTaxa db feats loc of
        Inl e \<Rightarrow> Inl e
      | Inr allTaxa \<Rightarrow> Inr (sortByScore (enrichLoop db feats loc (take 20 allTaxa))))"

text \<open>The text searched by the two color filters: name, common name, summary.\<close>

definition filterTextOf :: "taxon \<Rightarrow> string" where
  "filterTextOf t =
     lowerOrEmpty (taxon_name t) @ '' '' @ lowerOrEmpty (preferred_common_name t) @ '' '' @
     lowerOrEmpty (wikipedia_summary t)"

text \<open>The callback of the filter.\<close>

definition keepResult :: "string list \<Rightarrow> candidate \<Rightarrow> bool" where
  "keepResult primaryColors item =
     (if matchScore item < 0.1 then False
      else if length primaryColors > 0 then
        (let allText = filterTextOf (cand_taxon item);
             colorMatch = list_ex (\<lambda>color. js_includes allText color) primaryColors
         in if \<not> colorMatch \<and> length primaryColors > 1 then False else True)
      else True)"

text \<open>The returned object, without the echo of the query.\<close>

record searchResult =
  results :: "candidate list"
  totalMatches :: nat

text \<open>The filter of the sorted candidates and the object returned for them: the part of
  the function after the sort, which reads nothing but \<^verbatim>\<open>primaryColors\<close> and
  \<^verbatim>\<open>taxaWithObservations\<close>.\<close>

definition filterResults :: "string list \<Rightarrow> candidate list \<Rightarrow> searchResult" where
  "filterResults primaryColors ranked =
     (let filteredResults = filter (keepResult primaryColors) ranked
      in \<lparr>results = (if length filteredResults > 0 then filteredResults else ranked),
          totalMatches =
            (if length filteredResults > 0 then length filteredResults else length ranked)\<rparr>)"

definition searchObservationsByFeatures ::
  "inaturalist \<Rightarrow> features \<Rightarrow> location option \<Rightarrow> js_error + searchResult" where
  "searchObservationsByFeatures db feats loc =
     (case taxaWithObservations db feats loc of
        Inl e \<Rightarrow> Inl e
      | Inr ranked \<Rightarrow> Inr (filterResults (extractPrimaryColors feats) ranked))"


section \<open>Selection of the top matches (the filters of \<^verbatim>\<open>identifyWithOpenRouter\<close>)\<close>

text \<open>\<^verbatim>\<open>taxon.rank_level > k\<close>: false for a missing level.\<close>

definition rankAbove :: "taxon \<Rightarrow> int \<Rightarrow> bool" where
  "rankAbove t k = (case rank_level t of None \<Rightarrow> False | Some r \<Rightarrow> r > k)"

definition scoreFilter :: "candidate list \<Rightarrow> candidate list" where
  "scoreFilter ms = filter (\<lambda>m. matchScore m > 0.05) ms"

text \<open>The color filter is only applied when it leaves at least three matches.\<close>

definition colorFilter :: "string list \<Rightarrow> candidate list \<Rightarrow> candidate list" where
  "colorFilter primaryColors ms =
     (if length primaryColors > 0 then
        (let visuallyCompatibleMatches =
               filter (\<lambda>m. list_ex (\<lambda>color. js_includes (filterTextOf (cand_taxon m)) color)
                                    primaryColors) ms
         in if length visuallyCompatibleMatches \<ge> 3 then visuallyCompatibleMatches else ms)
      else ms)"

definition rankTierFilter :: "candidate list \<Rightarrow> candidate list" where
  "rankTierFilter ms =
     (let speciesMatches = filter (\<lambda>m. rankAtLeast (cand_taxon m) 70) ms
      in if length speciesMatches \<ge> 3 then speciesMatches
         else
           (let genusMatches = filter (\<lambda>m. rankAtLeast (cand_taxon m) 60) ms
            in if length genusMatches \<ge> 3 then genusMatches
               else
                 (let familyMatches = filter (\<lambda>m. rankAtLeast (cand_taxon m) 50) ms
                  in if length familyMatches \<ge> 3 then familyMatches else ms)))"

definition demoteGeneric :: "candidate list \<Rightarrow> candidate list" where
  "demoteGeneric ms =
     (case ms of
        [] \<Rightarrow> ms
      | m # rest \<Rightarrow>
          if rankAtMost (cand_taxon m) 30 then
            (let betterMatches = filter (\<lambda>m. rankAbove (cand_taxon m) 40) ms
             in if length betterMatches > 0
                then betterMatches @ filter (\<lambda>m. rankAtMost (cand_taxon m) 40) ms
                else ms)
          else ms)"

text \<open>\<^verbatim>\<open>topMatches\<close>: the four steps and the cut to ten.\<close>

definition topMatches :: "features \<Rightarrow> candidate list \<Rightarrow> candidate list" where
  "topMatches feats rs =
     take 10
       (demoteGeneric
          (rankTierFilter
             (colorFilter (extractPrimaryColors feats) (scoreFilter rs))))"


section \<open>The identification pipeline: \<^verbatim>\<open>identifyWithOpenRouter\<close>\<close>

definition MODELS_PRIMARY :: string where
  "MODELS_PRIMARY = ''google/gemini-2.0-flash-exp:free''"

definition MODELS_BACKUP :: string where
  "MODELS_BACKUP = ''deepseek/deepseek-chat-v3-0324:free''"

text \<open>A suggestion of the result (name, scientific name, rank level, confidence, number
  of observations, taxon id).\<close>

record suggestion =
  sug_name :: "string option"
  sug_scientificName :: "string option"
  sug_rankLevel :: int
  sug_confidence :: real
  sug_observations :: nat
  sug_taxonId :: nat

text \<open>The \<^verbatim>\<open>identification\<close> object of a result: its fields category, name,
  scientificName, taxonomicLevel, confidence, status, featuresUsed, suggestions and
  additionalInfo.modelUsed, with the prefix \<open>res\<close>.  The display texts (description,
  distribution, geographic data and the other entries of additionalInfo) are not part of
  the model.\<close>

record identification =
  res_category :: "string option"
  res_name :: "string option"
  res_scientificName :: "string option"
  res_taxonomicLevel :: "string option"
  res_confidence :: real
  res_status :: "string option"
  res_featuresUsed :: "features option"
  res_suggestions :: "suggestion list"
  res_modelUsed :: "string option"

text \<open>The JSON object found in the text of the model's answer: its
  \<^verbatim>\<open>featureExtraction\<close> key (the current answer format) and its \<^verbatim>\<open>identification\<close> key
  (the older one).\<close>

record aiJson =
  featureExtraction :: "features option"
  identificationAnswer :: "identification option"

text \<open>The \<^verbatim>\<open>error\<close> object of a response body.\<close>

record apiError =
  err_code :: "nat option"
  err_message :: "string option"

text \<open>A parsed response body: its \<^verbatim>\<open>error\<close>, and its \<^verbatim>\<open>choices\<close> as the list of
  the message contents (\<open>None\<close> for a choice without message content).\<close>

record apiData =
  data_error :: "apiError option"
  data_choices :: "string option list option"

text \<open>An HTTP response: status, body text, and the body as \<^verbatim>\<open>JSON.parse\<close> reads it
  (\<open>None\<close> when it throws).\<close>

record response =
  resp_status :: nat
  resp_text :: string
  resp_json :: "apiData option"

definition resp_ok :: "response \<Rightarrow> bool" where
  "resp_ok r = (200 \<le> resp_status r \<and> resp_status r \<le> 299)"

text \<open>The prompt is one fixed text; with a location it also names the region and the
  coordinates.  A request is what \<^verbatim>\<open>callOpenRouterAPI\<close> posts.\<close>

record request =
  req_model :: string
  req_prompt :: "(string \<times> real \<times> real) option"
  req_image :: string

text \<open>The world outside: the answer of the vision service to a request (or the rejection
  of \<^verbatim>\<open>fetch\<close>), the JSON object found in an answer text (from the first opening brace
  to the last closing brace; \<open>None\<close> when there is none or it does not parse), and the
  observation database.\<close>

record environment =
  openrouter :: "request \<Rightarrow> js_error + response"
  parseAnswer :: "string \<Rightarrow> aiJson option"
  inat :: inaturalist

text \<open>The text after the first occurrence of a separator and the text before it:
  \<^verbatim>\<open>s.split(sep)[1]\<close> is the second applied to the first.\<close>

fun afterFirst :: "string \<Rightarrow> string \<Rightarrow> string" where
  "afterFirst sep [] = []"
| "afterFirst sep (c # cs) =
     (if startsWith (c # cs) sep then drop (length sep) (c # cs) else afterFirst sep cs)"

fun beforeFirst :: "string \<Rightarrow> string \<Rightarrow> string" where
  "beforeFirst sep [] = []"
| "beforeFirst sep (c # cs) = (if startsWith (c # cs) sep then [] else c # beforeFirst sep cs)"

text \<open>\<^verbatim>\<open>imageData.split(';')[0].split(':')[1]\<close>\<close>

definition contentTypeOf :: "string \<Rightarrow> string option" where
  "contentTypeOf imageData =
     (let first = beforeFirst '';'' imageData
      in if js_includes first '':'' then Some (beforeFirst '':'' (afterFirst '':'' first))
         else None)"

definition imageUrlOf :: "string \<Rightarrow> string" where
  "imageUrlOf imageData =
     (if startsWith imageData ''http'' then imageData
      else if startsWith imageData ''data:image/'' then imageData
      else if startsWith imageData ''data:'' then
        (let contentType = contentTypeOf imageData
         in if \<not> truthy contentType \<or> \<not> startsWith (orEmpty contentType) ''image/'' then
              (let base64Data =
                     (if js_includes imageData ''base64,''
                      then beforeFirst ''base64,'' (afterFirst ''base64,'' imageData)
                      else imageData)
               in ''data:image/jpeg;base64,'' @ base64Data)
            else imageData)
      else ''data:image/jpeg;base64,'' @ imageData)"

definition promptOf :: "location option \<Rightarrow> (string \<times> real \<times> real) option" where
  "promptOf locationData =
     (case locationData of
        None \<Rightarrow> None
      | Some l \<Rightarrow>
          (case loc_coords l of
             None \<Rightarrow> None
           | Some c \<Rightarrow> Some (regionName (lat c) (lng c), lat c, lng c)))"

subsection \<open>The preparation of the features\<close>

text \<open>\<^verbatim>\<open>h && h.toLowerCase().includes(word)\<close> over the hint values.\<close>

definition hintsMention :: "features \<Rightarrow> string \<Rightarrow> bool" where
  "hintsMention feats word =
     (case taxonomicHints feats of
        None \<Rightarrow> False
      | Some hints \<Rightarrow>
          list_ex (\<lambda>h. h \<noteq> [] \<and> js_includes (toLowerCase h) word) (hintValues hints))"

text \<open>The specific identification is put in front of the search terms.\<close>

definition addSpecificTerms :: "features \<Rightarrow> features" where
  "addSpecificTerms feats =
     (case specificIdentification feats of
        None \<Rightarrow> feats
      | Some sid \<Rightarrow>
          (case mostSpecificTaxon sid of
             None \<Rightarrow> feats
           | Some taxonName \<Rightarrow>
               if taxonName = [] then feats
               else
                 (let terms = (case searchTerms feats of None \<Rightarrow> [] | Some ts \<Rightarrow> ts);
                      terms1 = taxonName # terms;
                      terms2 = (if truthy (scientificName sid)
                                then orEmpty (scientificName sid) # terms1 else terms1)
                  in feats\<lparr>searchTerms := Some terms2\<rparr>)))"

text \<open>A hints object becomes the array of its non-empty values.\<close>

definition convertHints :: "features \<Rightarrow> features" where
  "convertHints feats =
     (case taxonomicHints feats of
        Some (HintsObject kvs) \<Rightarrow>
          feats\<lparr>taxonomicHints := Some (HintsArray (filter (\<lambda>v. v \<noteq> []) (map snd kvs)))\<rparr>
      | _ \<Rightarrow> feats)"

text \<open>The possible Amazonian species are put in front of the search terms.\<close>

definition addAmazonSpecies :: "features \<Rightarrow> features" where
  "addAmazonSpecies feats =
     (case possibleSpecies feats of
        None \<Rightarrow> feats
      | Some species \<Rightarrow>
          (let amazonSpecies = filter (\<lambda>v. v \<noteq> []) species
           in if length amazonSpecies > 0 then
                feats\<lparr>searchTerms :=
                  Some (amazonSpecies @ (case searchTerms feats of None \<Rightarrow> [] | Some ts \<Rightarrow> ts))\<rparr>
              else feats))"

text \<open>With a location, regional terms are put at the end of the search terms.\<close>

definition addRegionalTerms :: "features \<Rightarrow> location option \<Rightarrow> features" where
  "addRegionalTerms feats locationData =
     (case locationData of
        None \<Rightarrow> feats
      | Some l \<Rightarrow>
          (case loc_coords l of
             None \<Rightarrow> feats
           | Some c \<Rightarrow>
               (case searchTerms feats of
                  None \<Rightarrow> feats
                | Some ts \<Rightarrow>
                    (let ts1 = (if truthy (loc_name l) then ts @ [orEmpty (loc_name l)] else ts);
                         ts2 =
                           (if lat c \<ge> -9.5 \<and> lat c \<le> 5 \<and> lng c \<ge> -79 \<and> lng c \<le> -50 then
                              ts1 @ [''amazon'', ''amazonia'', ''amazonian'', ''rainforest''] @
                              (if category feats = Some ''insect'' \<or> hintsMention feats ''insect''
                               then [''amazon insect'', ''amazonian beetle'', ''amazon beetle'',
                                     ''coleoptera amazonia'', ''scarabaeidae'', ''cerambycidae'',
                                     ''dynastinae'', ''buprestidae'',
                                     ''insetos da amaz'' @ [CHR 0xC3, CHR 0xB4] @ ''nia'']
                               else if category feats = Some ''plant'' \<or> hintsMention feats ''plant''
                               then [''amazon flora'', ''amazonian plant'', ''rainforest plant'',
                                     ''plantas da amazonia'']
                               else [])
                            else if lat c \<ge> -30 \<and> lat c \<le> -5 \<and> lng c \<ge> -55 \<and> lng c \<le> -35 then
                              ts1 @ [''atlantic forest'', ''mata atlantica'']
                            else ts1)
                     in feats\<lparr>searchTerms := Some ts2\<rparr>))))"

definition prepareFeatures :: "features \<Rightarrow> location option \<Rightarrow> features" where
  "prepareFeatures feats locationData =
     addRegionalTerms (addAmazonSpecies (convertHints (addSpecificTerms feats))) locationData"


subsection \<open>The results\<close>

text \<open>\<^verbatim>\<open>a || b\<close> on optional strings.\<close>

definition orElse :: "string option \<Rightarrow> string option \<Rightarrow> string option" where
  "orElse a b = (if truthy a then a else b)"

text \<open>The error results differ in their name (and in texts outside the model).\<close>

definition errorIdentification :: "string \<Rightarrow> identification" where
  "errorIdentification n =
     \<lparr>res_category = Some ''error'', res_name = Some n, res_scientificName = Some ''N/A'',
      res_taxonomicLevel = None, res_confidence = 0, res_status = None,
      res_featuresUsed = None, res_suggestions = [], res_modelUsed = None\<rparr>"

definition getCategory :: "taxon \<Rightarrow> string" where
  "getCategory t =
     (if \<not> truthy (iconic_taxon_name t) then ''Unknown''
      else
        (let iconicName = lowerOrEmpty (iconic_taxon_name t)
         in if iconicName = ''plantae'' then ''plant''
            else if iconicName \<in> set [''animalia'', ''actinopterygii'', ''amphibia'',
                                      ''arachnida'', ''aves'', ''mammalia'', ''reptilia'']
            then ''animal''
            else if iconicName = ''fungi'' then ''fungus''
            else ''other''))"

definition isTooGeneric :: "candidate \<Rightarrow> features \<Rightarrow> bool" where
  "isTooGeneric topMatch feats =
     (rankAtMost (cand_taxon topMatch) 40 \<and>
      (case visualFeatures feats of
         None \<Rightarrow> False
       | Some vf \<Rightarrow>
           (case distinctiveFeatures vf of None \<Rightarrow> False | Some ds \<Rightarrow> length ds > 0)))"

definition hasMoreSpecificID :: "features \<Rightarrow> bool" where
  "hasMoreSpecificID feats =
     (case specificIdentification feats of
        None \<Rightarrow> False
      | Some sid \<Rightarrow>
          truthy (mostSpecificTaxon sid) \<and> truthy (taxonomicLevel sid) \<and>
          (taxonomicLevel sid = Some ''species'' \<or> taxonomicLevel sid = Some ''genus''))"

definition suggestionOf :: "candidate \<Rightarrow> suggestion" where
  "suggestionOf m =
     \<lparr>sug_name = orElse (preferred_common_name (cand_taxon m)) (taxon_name (cand_taxon m)),
      sug_scientificName = taxon_name (cand_taxon m),
      sug_rankLevel = (case rank_level (cand_taxon m) of None \<Rightarrow> 0 | Some r \<Rightarrow> r),
      sug_confidence = matchScore m,
      sug_observations = length (cand_observations m),
      sug_taxonId = taxon_id (cand_taxon m)\<rparr>"

text \<open>The result of the branch with database matches: \<open>topMatch\<close> is the first of the
  results.  The model that answered is not recorded in it.\<close>

definition matchResult :: "features \<Rightarrow> candidate \<Rightarrow> candidate list \<Rightarrow> identification" where
  "matchResult feats topMatch rs =
     (let t = cand_taxon topMatch;
          useAi = (isTooGeneric topMatch feats \<and> hasMoreSpecificID feats);
          sid = (case specificIdentification feats of
                   None \<Rightarrow> \<lparr>mostSpecificTaxon = None, taxonomicLevel = None, scientificName = None\<rparr>
                 | Some x \<Rightarrow> x);
          finalName =
            (if useAi then mostSpecificTaxon sid
             else orElse (preferred_common_name t) (taxon_name t));
          finalScientificName =
            (if useAi \<and> truthy (scientificName sid) then scientificName sid else taxon_name t);
          finalTaxonomicLevel =
            (if useAi then taxonomicLevel sid else orElse (taxon_rank t) (Some ''Unknown''));
          tops = topMatches feats rs;
          base =
            \<lparr>res_category = Some (getCategory t), res_name = finalName,
             res_scientificName = finalScientificName,
             res_taxonomicLevel = finalTaxonomicLevel,
             res_confidence = matchScore topMatch, res_status = Some ''success'',
             res_featuresUsed = Some feats, res_suggestions = map suggestionOf tops,
             res_modelUsed = None\<rparr>
      in case tops of
           first # second # others \<Rightarrow>
             if rankAtMost t 30 \<and> rankAbove (cand_taxon first) 40 then
               base\<lparr>res_name :=
                      orElse (preferred_common_name (cand_taxon first)) (taxon_name (cand_taxon first)),
                    res_scientificName := taxon_name (cand_taxon first),
                    res_taxonomicLevel := orElse (taxon_rank (cand_taxon first)) (Some ''Unknown''),
                    res_confidence := matchScore first\<rparr>
             else base
         | _ \<Rightarrow> base)"

definition hasSpecificID :: "features \<Rightarrow> bool" where
  "hasSpecificID feats =
     (case specificIdentification feats of
        None \<Rightarrow> False
      | Some sid \<Rightarrow>
          truthy (mostSpecificTaxon sid) \<and>
          (taxonomicLevel sid = Some ''species'' \<or> taxonomicLevel sid = Some ''genus''))"

text \<open>The object literal of the branch without database matches, as the source writes
  its modelled fields.  \<^verbatim>\<open>features.confidence || (hasSpecificID ? 0.7 : 0.3)\<close>: a missing
  confidence and the confidence 0 are falsy.\<close>

definition noMatchPayload :: "features \<Rightarrow> identification" where
  "noMatchPayload feats =
     (let sid = (case specificIdentification feats of
                   None \<Rightarrow> \<lparr>mostSpecificTaxon = None, taxonomicLevel = None, scientificName = None\<rparr>
                 | Some x \<Rightarrow> x);
          specific = hasSpecificID feats
      in \<lparr>res_category = orElse (category feats) (Some ''Unknown''),
          res_name =
            (if specific then mostSpecificTaxon sid
             else Some (''Unidentified '' @ orEmpty (orElse (category feats) (Some ''Organism'')))),
          res_scientificName =
            (if specific \<and> truthy (scientificName sid) then scientificName sid
             else Some ''Unknown''),
          res_taxonomicLevel = (if specific then taxonomicLevel sid else Some ''Unknown''),
          res_confidence =
            (case confidence feats of
               None \<Rightarrow> (if specific then 0.7 else 0.3)
             | Some c \<Rightarrow> if c \<noteq> 0 then c else (if specific then 0.7 else 0.3)),
          res_status = Some (if specific then ''success'' else ''no_match''),
          res_featuresUsed = Some feats, res_suggestions = [], res_modelUsed = None\<rparr>)"

text \<open>The identifiers bound where that object literal is evaluated: the declarations of
  the else-block, of the blocks and the try block around it, of the function, and of the
  module.  \<^verbatim>\<open>primaryColors\<close> is declared with \<^verbatim>\<open>const\<close> inside the then-block (the
  branch with database matches) and is not among them.\<close>

definition noMatchScope :: "string list" where
  "noMatchScope =
     [''hasSpecificID'', ''finalName'', ''finalScientificName'', ''finalTaxonomicLevel'',
      ''amazonianMatch'', ''features'', ''inatResults'', ''jsonStr'', ''aiData'',
      ''aiResponseText'', ''jsonStart'', ''jsonEnd'',
      ''imageData'', ''locationData'', ''providedApiKey'', ''apiKey'', ''imageUrl'',
      ''currentModel'', ''promptBase'', ''prompt'', ''callOpenRouterAPI'', ''response'', ''data'',
      ''OPENROUTER_API_ENDPOINT'', ''MODELS'', ''getTaxonByName'', ''getTaxonGeographicData'',
      ''searchObservationsByFeatures'', ''getObservationsByTaxon'', ''searchTaxaByQuery'',
      ''getCategory'', ''formatDistribution'', ''formatCharacteristics'', ''formatDescription'',
      ''getHabitatInfo'', ''getInterestingFacts'', ''formatLocationMatch'',
      ''formatRegionalRelevance'', ''IDENTIFICATION_STATUS'', ''identifyWithOpenRouter'']"

text \<open>The branch without database matches: its object literal reads \<^verbatim>\<open>primaryColors\<close>
  (for the entry additionalInfo.visualFiltering); reading an identifier that is not bound
  throws a ReferenceError before the object is returned.\<close>

definition noMatchBranch :: "features \<Rightarrow> js_error + identification" where
  "noMatchBranch feats =
     (if ''primaryColors'' \<in> set noMatchScope then Inr (noMatchPayload feats)
      else Inl (ReferenceError ''primaryColors is not defined''))"

subsection \<open>The steps of the function\<close>

text \<open>The try block that reads the features from the answer text and matches them against
  the database.  \<open>Some\<close> is a \<^verbatim>\<open>return\<close> inside the block; \<open>None\<close> means that the
  block ended without one: no JSON object with a \<^verbatim>\<open>featureExtraction\<close> key was found,
  or an exception was thrown, caught and logged.\<close>

definition featurePath :: "environment \<Rightarrow> location option \<Rightarrow> string \<Rightarrow> identification option" where
  "featurePath env locationData content =
     (case parseAnswer env content of
        None \<Rightarrow> None
      | Some aiData \<Rightarrow>
          (case featureExtraction aiData of
             None \<Rightarrow> None
           | Some extracted \<Rightarrow>
               (let feats = prepareFeatures extracted locationData
                in case searchObservationsByFeatures (inat env) feats locationData of
                     Inl e \<Rightarrow> None
                   | Inr inatResults \<Rightarrow>
                       (case results inatResults of
                          [] \<Rightarrow> (case noMatchBranch feats of Inl e \<Rightarrow> None | Inr r \<Rightarrow> Some r)
                        | topMatch # others \<Rightarrow>
                            (case getTaxonGeographicData (inat env)
                                    (taxon_id (cand_taxon topMatch)) of
                               Inl e \<Rightarrow> None
                             | Inr taxonData \<Rightarrow>
                                 Some (matchResult feats topMatch (results inatResults)))))))"

text \<open>\<^verbatim>\<open>data.choices[0].message.content\<close> when every link of the chain is truthy.\<close>

definition firstContent :: "apiData \<Rightarrow> string option" where
  "firstContent d =
     (case data_choices d of
        Some (Some content # others) \<Rightarrow> if content \<noteq> [] then Some content else None
      | _ \<Rightarrow> None)"

text \<open>The handling of a response that is not ok.  The error thrown inside the try block
  is caught by the catch clause of the same statement; the error thrown by the catch
  clause leaves the function (its message, which quotes the status and the body, is
  shortened here).\<close>

definition handleHttpError :: "string \<Rightarrow> response \<Rightarrow> js_error + identification" where
  "handleHttpError currentModel resp =
     (let st = resp_status resp;
          errorText = resp_text resp;
          catchClause =
            (if js_includes errorText ''rate limit'' \<or> js_includes errorText ''credits'' \<or>
                st = 429 \<or> st = 402 then
               (if currentModel = MODELS_BACKUP
                then Inr (errorIdentification ''API Usage Limit Reached'')
                else Inr (errorIdentification ''API Usage Limit Reached''))
             else Inl (Error ''OpenRouter API error''))
      in case resp_json resp of
           None \<Rightarrow> catchClause
         | Some errorData \<Rightarrow>
             (let code = (case data_error errorData of None \<Rightarrow> None | Some e \<Rightarrow> err_code e)
              in if code = Some 429 \<or> st = 429 \<or> code = Some 402 \<or> st = 402 then
                   (if currentModel = MODELS_BACKUP
                    then Inr (errorIdentification ''Rate Limit Exceeded'')
                    else Inr (errorIdentification ''API Usage Limit Reached''))
                 else catchClause))"

text \<open>The result when the answer text holds no usable identification.\<close>

definition fallbackIdentification :: "string \<Rightarrow> string \<Rightarrow> identification" where
  "fallbackIdentification content currentModel =
     \<lparr>res_category =
        Some (if js_includes (toLowerCase content) ''plant'' then ''plant'' else ''animal''),
      res_name = Some ''Unknown Species'', res_scientificName = Some ''N/A'',
      res_taxonomicLevel = None, res_confidence = 0.5, res_status = None,
      res_featuresUsed = None, res_suggestions = [], res_modelUsed = Some currentModel\<rparr>"

text \<open>The end of the function: the checks of the choices and the older answer format,
  whose result is tagged with the model that answered.  (The enrichment of that result
  with geographic data changes none of the modelled fields and swallows its errors.)\<close>

definition finish :: "environment \<Rightarrow> string \<Rightarrow> apiData \<Rightarrow> identification" where
  "finish env currentModel d =
     (case data_choices d of
        None \<Rightarrow> errorIdentification ''Invalid Response''
      | Some [] \<Rightarrow> errorIdentification ''Invalid Response''
      | Some (c # others) \<Rightarrow>
          (case c of
             None \<Rightarrow> errorIdentification ''Empty Response''
           | Some content \<Rightarrow>
               if content = [] then errorIdentification ''Empty Response''
               else
                 (case parseAnswer env content of
                    None \<Rightarrow> fallbackIdentification content currentModel
                  | Some identificationData \<Rightarrow>
                      (case identificationAnswer identificationData of
                         None \<Rightarrow> fallbackIdentification content currentModel
                       | Some ident \<Rightarrow> ident\<lparr>res_modelUsed := Some currentModel\<rparr>))))"

text \<open>An outcome of the function: the returned result or the thrown error, and the
  requests sent to the vision service, in their order.\<close>

type_synonym outcome = "(js_error + identification) \<times> request list"

definition isUsageLimitError :: "apiError \<Rightarrow> bool" where
  "isUsageLimitError e =
     (err_code e = Some 429 \<or> err_code e = Some 402 \<or>
      js_includes (orEmpty (err_message e)) ''rate limit'' \<or>
      js_includes (orEmpty (err_message e)) ''credits'')"

text \<open>The handling of an \<^verbatim>\<open>error\<close> object in a body that came with an ok status: one
  call of the backup model, and only when the current model is still the primary one.\<close>

definition afterFeaturePath ::
  "environment \<Rightarrow> string \<Rightarrow> apiData \<Rightarrow> request list \<Rightarrow> request \<Rightarrow> outcome" where
  "afterFeaturePath env currentModel d calls backupRequest =
     (case data_error d of
        None \<Rightarrow> (Inr (finish env currentModel d), calls)
      | Some e \<Rightarrow>
          if isUsageLimitError e \<and> currentModel = MODELS_PRIMARY then
            (case openrouter env backupRequest of
               Inl thrown \<Rightarrow> (Inr (errorIdentification ''API Error''), calls @ [backupRequest])
             | Inr backupResponse \<Rightarrow>
                 if resp_ok backupResponse then
                   (case resp_json backupResponse of
                      None \<Rightarrow> (Inr (errorIdentification ''API Error''), calls @ [backupRequest])
                    | Some backupData \<Rightarrow>
                        (Inr (finish env MODELS_BACKUP (backupData\<lparr>data_error := None\<rparr>)),
                         calls @ [backupRequest]))
                 else (Inr (errorIdentification ''Rate Limit Exceeded''), calls @ [backupRequest]))
          else if err_code e = Some 429 \<or> js_includes (orEmpty (err_message e)) ''rate limit''
          then (Inr (errorIdentification ''Rate Limit Exceeded''), calls)
          else (Inr (errorIdentification ''API Error''), calls))"

text \<open>The function after the cascade on the HTTP status has settled on a response.\<close>

definition afterCascade ::
  "environment \<Rightarrow> location option \<Rightarrow> string \<Rightarrow> response \<Rightarrow> request list \<Rightarrow> request \<Rightarrow> outcome" where
  "afterCascade env locationData currentModel resp calls backupRequest =
     (if \<not> resp_ok resp then (handleHttpError currentModel resp, calls)
      else
        (case resp_json resp of
           None \<Rightarrow> (Inl (Error ''Failed to parse API response''), calls)
         | Some d \<Rightarrow>
             (case (case firstContent d of
                      None \<Rightarrow> None
                    | Some content \<Rightarrow> featurePath env locationData content) of
                Some r \<Rightarrow> (Inr r, calls)
              | None \<Rightarrow> afterFeaturePath env currentModel d calls backupRequest)))"

definition requestFor :: "string \<Rightarrow> location option \<Rightarrow> string \<Rightarrow> request" where
  "requestFor model locationData imageData =
     \<lparr>req_model = model, req_prompt = promptOf locationData, req_image = imageUrlOf imageData\<rparr>"

text \<open>\<open>apiKey\<close> is the key after \<^verbatim>\<open>providedApiKey || process.env.OPENROUTER_API_KEY\<close>.\<close>

definition identifyWithOpenRouter ::
  "environment \<Rightarrow> string \<Rightarrow> location option \<Rightarrow> string option \<Rightarrow> outcome" where
  "identifyWithOpenRouter env imageData locationData apiKey =
     (if \<not> truthy apiKey then (Inl (Error ''OpenRouter API key is not configured''), [])
      else if imageData = [] then (Inl (Error ''No image was provided for analysis''), [])
      else if imageUrlOf imageData = []
      then (Inl (Error ''Failed to process image into valid format''), [])
      else
        (let primaryRequest = requestFor MODELS_PRIMARY locationData imageData;
             backupRequest = requestFor MODELS_BACKUP locationData imageData
         in case openrouter env primaryRequest of
              Inl thrown \<Rightarrow> (Inl thrown, [primaryRequest])
            | Inr response1 \<Rightarrow>
                if resp_status response1 = 429 \<or> resp_status response1 = 402 then
                  (case openrouter env backupRequest of
                     Inl thrown \<Rightarrow> (Inl thrown, [primaryRequest, backupRequest])
                   | Inr response2 \<Rightarrow>
                       afterCascade env locationData MODELS_BACKUP response2
                         [primaryRequest, backupRequest] backupRequest)
                else
                  afterCascade env locationData MODELS_PRIMARY response1
                    [primaryRequest] backupRequest))"


section \<open>The category bonus as the specification words it\<close>

text \<open>The specification's reading of the category bonus: the taxon's iconic group and the
  feature category are each mapped to a coarse category, plant or non-plant, and the
  bonus is given when the two agree.\<close>

datatype coarseCategory = Plant | NonPlant

definition coarseOfIconic :: "string \<Rightarrow> coarseCategory" where
  "coarseOfIconic iconic = (if toLowerCase iconic = ''plantae'' then Plant else NonPlant)"

definition coarseOfFeatureCategory :: "string \<Rightarrow> coarseCategory" where
  "coarseOfFeatureCategory c = (if toLowerCase c = ''plant'' then Plant else NonPlant)"


section \<open>Concrete inputs\<close>

definition classTaxon :: taxon where
  "classTaxon = \<lparr>taxon_id = 47158, taxon_name = Some ''Insecta'',
     preferred_common_name = Some ''Insects'',
     wikipedia_summary = Some ''Green and black insects of the Amazon'',
     iconic_taxon_name = Some ''Insecta'', taxon_rank = Some ''class'',
     rank_level = Some 20, establishment_means = None\<rparr>"

definition orderTaxon :: taxon where
  "orderTaxon = classTaxon\<lparr>taxon_id := 47208, taxon_name := Some ''Coleoptera'',
     taxon_rank := Some ''order'', rank_level := Some 40\<rparr>"

definition twoColorVisual :: visualFeatures where
  "twoColorVisual = \<lparr>colors = Some [''Green'', ''black''], patterns = None,
     structures = None, distinctiveFeatures = None\<rparr>"

definition twoColorFeatures :: features where
  "twoColorFeatures = \<lparr>category = Some ''animal'', specificIdentification = None,
     taxonomicHints = None, visualFeatures = Some twoColorVisual,
     possibleSpecies = None, searchTerms = None, confidence = None\<rparr>"

definition manausLocation :: location where
  "manausLocation = \<lparr>loc_coords = Some \<lparr>lat = -3, lng = -60\<rparr>, loc_name = Some ''Manaus''\<rparr>"

definition manausObservations :: "observation list" where
  "manausObservations =
     map (\<lambda>i. \<lparr>obs_id = i, geojson = Some (-60, -3)\<rparr>) [1, 2, 3, 4, 5, 6, 7, 8]"

definition beetleFeatures :: features where
  "beetleFeatures = \<lparr>category = Some ''insect'', specificIdentification = None,
     taxonomicHints = None,
     visualFeatures = Some \<lparr>colors = Some [''Metallic green''], patterns = None,
       structures = None, distinctiveFeatures = Some [''Large horn'']\<rparr>,
     possibleSpecies = None, searchTerms = None, confidence = None\<rparr>"

definition orchidFeatures :: features where
  "orchidFeatures = \<lparr>category = Some ''plant'', specificIdentification = None,
     taxonomicHints = Some (HintsArray [''Orchidaceae'']),
     visualFeatures = Some \<lparr>colors = Some [''white'', ''yellow''], patterns = None,
       structures = None, distinctiveFeatures = None\<rparr>,
     possibleSpecies = None, searchTerms = Some [''orchid''], confidence = None\<rparr>"

definition capitalPlantFeatures :: features where
  "capitalPlantFeatures = orchidFeatures\<lparr>category := Some ''Plant''\<rparr>"

definition errorFeatures :: features where
  "errorFeatures = twoColorFeatures\<lparr>category := Some ''error''\<rparr>"

definition uncategorisedFeatures :: features where
  "uncategorisedFeatures = twoColorFeatures\<lparr>category := None\<rparr>"

definition unlabelledTaxon :: taxon where
  "unlabelledTaxon = classTaxon\<lparr>iconic_taxon_name := None\<rparr>"

definition saoPauloCoords :: coords where
  "saoPauloCoords = \<lparr>lat = -23.5, lng = -46.6\<rparr>"

definition saoPauloLocation :: location where
  "saoPauloLocation = \<lparr>loc_coords = Some saoPauloCoords, loc_name = Some ''Sao Paulo''\<rparr>"




text \<open>A remote that knows one taxon and answers every observation request with the same
  list.\<close>

definition bareDatabase :: "taxon \<Rightarrow> observation list \<Rightarrow> inaturalist" where
  "bareDatabase t obs =
     \<lparr>searchTaxaByQuery = (\<lambda>q n. Inr []),
      getNearbyObservationsForTaxon = (\<lambda>i la lo r. Inr obs),
      getObservationsByTaxon = (\<lambda>i n. Inr obs),
      getTaxonById = (\<lambda>i. Inr t)\<rparr>"



definition fernFamily :: taxon where
  "fernFamily = \<lparr>taxon_id = 1, taxon_name = Some ''Cyatheaceae family'',
     preferred_common_name = None, wikipedia_summary = None,
     iconic_taxon_name = Some ''Plantae'', taxon_rank = Some ''family'',
     rank_level = Some 50, establishment_means = None\<rparr>"

definition fernSpecies :: taxon where
  "fernSpecies = \<lparr>taxon_id = 2, taxon_name = Some ''Cyathea arborea'',
     preferred_common_name = None, wikipedia_summary = None,
     iconic_taxon_name = Some ''Plantae'', taxon_rank = Some ''species'',
     rank_level = Some 70, establishment_means = None\<rparr>"

definition fernFeatures :: features where
  "fernFeatures = \<lparr>category = Some ''plant'', specificIdentification = None,
     taxonomicHints = None,
     visualFeatures = Some \<lparr>colors = Some [''turquoise'', ''magenta''], patterns = None,
       structures = None, distinctiveFeatures = None\<rparr>,
     possibleSpecies = None, searchTerms = Some [''fern''], confidence = None\<rparr>"

definition fernDatabase :: inaturalist where
  "fernDatabase =
     \<lparr>searchTaxaByQuery = (\<lambda>q n. if q = ''fern'' then Inr [fernFamily, fernSpecies] else Inr []),
      getNearbyObservationsForTaxon = (\<lambda>i la lo r. Inr []),
      getObservationsByTaxon = (\<lambda>i n. Inr []),
      getTaxonById = (\<lambda>i. Inr fernSpecies)\<rparr>"








definition tierCandidate :: "nat \<Rightarrow> int \<Rightarrow> real \<Rightarrow> candidate" where
  "tierCandidate i r sc =
     \<lparr>cand_taxon = \<lparr>taxon_id = i, taxon_name = None, preferred_common_name = None,
         wikipedia_summary = None, iconic_taxon_name = None, taxon_rank = None,
         rank_level = Some r, establishment_means = None\<rparr>,
      cand_observations = [], matchScore = sc\<rparr>"




definition greenCandidate :: "nat \<Rightarrow> int \<Rightarrow> real \<Rightarrow> candidate" where
  "greenCandidate i r sc =
     \<lparr>cand_taxon = \<lparr>taxon_id = i, taxon_name = None, preferred_common_name = None,
         wikipedia_summary = Some ''A family of green plants'', iconic_taxon_name = None,
         taxon_rank = None, rank_level = Some r, establishment_means = None\<rparr>,
      cand_observations = [], matchScore = sc\<rparr>"








definition answerText :: string where
  "answerText = ''{featureExtraction: {category: plant}}''"

definition okResponse :: response where
  "okResponse = \<lparr>resp_status = 200, resp_text = ''{choices: [...]}'',
     resp_json = Some \<lparr>data_error = None, data_choices = Some [Some answerText]\<rparr>\<rparr>"

definition limitResponse :: response where
  "limitResponse = \<lparr>resp_status = 429, resp_text = ''Too Many Requests'', resp_json = None\<rparr>"

definition plainFeatures :: features where
  "plainFeatures = \<lparr>category = Some ''plant'', specificIdentification = None,
     taxonomicHints = Some (HintsArray []), visualFeatures = None,
     possibleSpecies = None, searchTerms = Some [], confidence = None\<rparr>"

definition noMatchEnvironment :: environment where
  "noMatchEnvironment =
     \<lparr>openrouter = (\<lambda>req. Inr okResponse),
      parseAnswer = (\<lambda>content. Some \<lparr>featureExtraction = Some plainFeatures,
                                      identificationAnswer = None\<rparr>),
      inat = bareDatabase classTaxon []\<rparr>"

definition cascadeEnvironment :: environment where
  "cascadeEnvironment =
     \<lparr>openrouter = (\<lambda>req. if req_model req = MODELS_PRIMARY then Inr limitResponse
                           else Inr okResponse),
      parseAnswer = (\<lambda>content. Some \<lparr>featureExtraction = Some fernFeatures,
                                      identificationAnswer = None\<rparr>),
      inat = fernDatabase\<rparr>"


section \<open>Evaluation of strings\<close>

lemma toLowerCase_simps:
  "toLowerCase [] = []"
  "toLowerCase (c # cs) = lowerChar c # toLowerCase cs"
  by (simp_all add: toLowerCase_def)


section \<open>Properties of the scoring function\<close>

text \<open>
  C1.  \<^verbatim>\<open>calculateMatchScore\<close> reads nothing but its four arguments, so equal argument
  tuples give the equal score, and the returned score lies in the closed interval from 0
  to 1.
\<close>

theorem calculateMatchScore_deterministic_in_unit_interval:
  "(taxon = taxon' \<and> observations = observations' \<and> feats = feats' \<and> loc = loc' \<longrightarrow>
      calculateMatchScore taxon observations feats loc =
      calculateMatchScore taxon' observations' feats' loc') \<and>
   0 \<le> calculateMatchScore taxon observations feats loc \<and>
   calculateMatchScore taxon observations feats loc \<le> 1"
  by (simp add: calculateMatchScore_def Let_def)

theorem calculateMatchScore_deterministic_in_unit_interval_witness:
  "calculateMatchScore classTaxon manausObservations twoColorFeatures (Some manausLocation) =
   calculateMatchScore classTaxon manausObservations twoColorFeatures (Some manausLocation) \<and>
   0 \<le> calculateMatchScore classTaxon manausObservations twoColorFeatures (Some manausLocation) \<and>
   calculateMatchScore classTaxon manausObservations twoColorFeatures (Some manausLocation) \<le> 1"
  using calculateMatchScore_deterministic_in_unit_interval
    [of classTaxon classTaxon manausObservations manausObservations
        twoColorFeatures twoColorFeatures "Some manausLocation" "Some manausLocation"]
  by simp

lemma accumulatedScore_classTaxon:
  "accumulatedScore classTaxon manausObservations twoColorFeatures (Some manausLocation) = 11 / 10"
  by (simp add: accumulatedScore_def specificityFactor_def visualFactor_def visualCounts_def
      allTextOf_def categoryFactor_def localObservationFactor_def classTaxon_def
      twoColorFeatures_def twoColorVisual_def manausLocation_def manausObservations_def
      isInAmazon_def obsInAmazon_def toLowerCase_simps lowerChar_def)

lemma accumulatedScore_orderTaxon:
  "accumulatedScore orderTaxon manausObservations twoColorFeatures (Some manausLocation) = 13 / 10"
  by (simp add: accumulatedScore_def specificityFactor_def visualFactor_def visualCounts_def
      allTextOf_def categoryFactor_def localObservationFactor_def classTaxon_def orderTaxon_def
      twoColorFeatures_def twoColorVisual_def manausLocation_def manausObservations_def
      isInAmazon_def obsInAmazon_def toLowerCase_simps lowerChar_def)

text \<open>
  C2.  For a taxon of rank level at most 30, when the features hold at least two colors or
  at least one pattern, the returned score is the score accumulated by the base value and
  the four factors minus 0.9, floored at 0 (and capped at 1 by the final clamp); for a rank
  level from 31 to 40 the same holds with 0.8.  No later step changes it: the region
  penalty only applies from rank level 50 on.
\<close>

theorem genericity_override_subtracts:
  assumes "visualFeatures feats = Some vf"
    and "(\<exists>cs. colors vf = Some cs \<and> 2 \<le> length cs) \<or>
         (\<exists>ps. patterns vf = Some ps \<and> 1 \<le> length ps)"
    and "rank_level taxon = Some r"
  shows "(r \<le> 30 \<longrightarrow>
            calculateMatchScore taxon observations feats loc =
              min 1 (max 0 (accumulatedScore taxon observations feats loc - 0.9)) \<and>
            calculateMatchScore taxon observations feats loc \<le>
              max 0 (accumulatedScore taxon observations feats loc - 0.9)) \<and>
         (31 \<le> r \<and> r \<le> 40 \<longrightarrow>
            calculateMatchScore taxon observations feats loc =
              min 1 (max 0 (accumulatedScore taxon observations feats loc - 0.8)) \<and>
            calculateMatchScore taxon observations feats loc \<le>
              max 0 (accumulatedScore taxon observations feats loc - 0.8))"
proof -
  have detail: "hasVisualDetail feats"
    using assms(1,2) by (auto simp: hasVisualDetail_def)
  have noPenalty: "r \<le> 40 \<Longrightarrow> regionPenalty taxon observations loc s = s" for s
    using assms(3) by (simp add: regionPenalty_def rankAtLeast_def Let_def split: option.splits)
  show ?thesis
    using detail noPenalty assms(3)
    by (auto simp: calculateMatchScore_def genericityOverride_def rankAtMost_def Let_def)
qed

theorem genericity_override_subtracts_witness:
  "accumulatedScore classTaxon manausObservations twoColorFeatures (Some manausLocation) = 11 / 10 \<and>
   calculateMatchScore classTaxon manausObservations twoColorFeatures (Some manausLocation) = 2 / 10 \<and>
   accumulatedScore orderTaxon manausObservations twoColorFeatures (Some manausLocation) = 13 / 10 \<and>
   calculateMatchScore orderTaxon manausObservations twoColorFeatures (Some manausLocation) = 5 / 10"
proof -
  have vf: "visualFeatures twoColorFeatures = Some twoColorVisual"
    by (simp add: twoColorFeatures_def)
  have cs: "(\<exists>cs. colors twoColorVisual = Some cs \<and> 2 \<le> length cs) \<or>
            (\<exists>ps. patterns twoColorVisual = Some ps \<and> 1 \<le> length ps)"
    by (simp add: twoColorVisual_def)
  have r20: "rank_level classTaxon = Some 20" by (simp add: classTaxon_def)
  have r40: "rank_level orderTaxon = Some 40" by (simp add: orderTaxon_def classTaxon_def)
  show ?thesis
    using genericity_override_subtracts [OF vf cs r20, of manausObservations "Some manausLocation"]
      genericity_override_subtracts [OF vf cs r40, of manausObservations "Some manausLocation"]
    by (simp add: accumulatedScore_classTaxon accumulatedScore_orderTaxon)
qed

text \<open>
  C8, as stated, fails: an insect taxon and the feature category insect are both non-plant,
  and the category factor adds nothing.
\<close>

theorem categoryFactor_insect_counterexample:
  "coarseOfIconic ''Insecta'' = coarseOfFeatureCategory ''insect'' \<and>
   iconic_taxon_name classTaxon = Some ''Insecta'' \<and>
   category beetleFeatures = Some ''insect'' \<and>
   categoryFactor classTaxon beetleFeatures (3 / 10) = 3 / 10"
  by (simp add: coarseOfIconic_def coarseOfFeatureCategory_def categoryFactor_def classTaxon_def
      beetleFeatures_def toLowerCase_simps lowerChar_def)

lemma toLowerCase_nonempty: "toLowerCase s = a # as \<Longrightarrow> s \<noteq> []"
  by (auto simp: toLowerCase_def)

text \<open>
  C8, amended.  The category factor adds 0.15 or nothing.  It adds 0.15 exactly when the
  iconic group of the taxon and the category of the features are both present and, compared
  in lower case, the iconic group is plantae and the category is plant, or the iconic group
  is not empty and not plantae and the category is animal.  So it adds nothing for any
  other category (insect, fungus, other, error) or a missing one, whatever the taxon, and
  nothing for a taxon without iconic group.  \<^verbatim>\<open>calculateMatchScore\<close> applies the factor
  once, to the score left by the factor of the local observations, and hands its result
  to the factors of the visual features and of the specificity.
\<close>

theorem categoryFactor_plant_or_animal_only:
  "(categoryFactor taxon feats score = score + 0.15 \<or> categoryFactor taxon feats score = score) \<and>
   ((categoryFactor taxon feats score = score + 0.15) =
      (\<exists>iconic c. iconic_taxon_name taxon = Some iconic \<and> category feats = Some c \<and>
         ((toLowerCase iconic = ''plantae'' \<and> toLowerCase c = ''plant'') \<or>
          (iconic \<noteq> [] \<and> toLowerCase iconic \<noteq> ''plantae'' \<and> toLowerCase c = ''animal'')))) \<and>
   (lowerOrEmpty (category feats) \<noteq> ''plant'' \<and> lowerOrEmpty (category feats) \<noteq> ''animal'' \<longrightarrow>
      categoryFactor taxon feats score = score) \<and>
   (\<not> truthy (iconic_taxon_name taxon) \<longrightarrow> categoryFactor taxon feats score = score) \<and>
   calculateMatchScore taxon observations feats loc =
     min 1 (max 0
       (regionPenalty taxon observations loc
          (genericityOverride taxon feats
             (specificityFactor taxon
                (visualFactor taxon feats
                   (categoryFactor taxon feats
                      (localObservationFactor loc observations 0.3)))))))"
proof -
  have shape: "categoryFactor taxon feats score = score + 0.15 \<or> categoryFactor taxon feats score = score"
    by (simp add: categoryFactor_def Let_def)
  have bonus: "(categoryFactor taxon feats score = score + 0.15) =
      (\<exists>iconic c. iconic_taxon_name taxon = Some iconic \<and> category feats = Some c \<and>
         ((toLowerCase iconic = ''plantae'' \<and> toLowerCase c = ''plant'') \<or>
          (iconic \<noteq> [] \<and> toLowerCase iconic \<noteq> ''plantae'' \<and> toLowerCase c = ''animal'')))"
  proof (cases "iconic_taxon_name taxon")
    case None
    then show ?thesis by (simp add: categoryFactor_def)
  next
    case i: (Some iconic)
    show ?thesis
    proof (cases "category feats")
      case None
      with i show ?thesis by (simp add: categoryFactor_def)
    next
      case (Some c)
      with i show ?thesis
        by (auto simp: categoryFactor_def Let_def dest: toLowerCase_nonempty)
    qed
  qed
  have other: "lowerOrEmpty (category feats) \<noteq> ''plant'' \<and> lowerOrEmpty (category feats) \<noteq> ''animal'' \<longrightarrow>
      categoryFactor taxon feats score = score"
    by (simp add: categoryFactor_def Let_def)
  have missing: "\<not> truthy (iconic_taxon_name taxon) \<longrightarrow> categoryFactor taxon feats score = score"
    by (simp add: categoryFactor_def)
  have acc: "calculateMatchScore taxon observations feats loc =
     min 1 (max 0
       (regionPenalty taxon observations loc
          (genericityOverride taxon feats
             (specificityFactor taxon
                (visualFactor taxon feats
                   (categoryFactor taxon feats
                      (localObservationFactor loc observations 0.3)))))))"
    by (simp add: calculateMatchScore_def accumulatedScore_def Let_def)
  from shape bonus other missing acc show ?thesis by blast
qed

theorem categoryFactor_plant_or_animal_only_witness:
  "categoryFactor fernFamily capitalPlantFeatures (3 / 10) = 3 / 10 + 0.15 \<and>
   categoryFactor classTaxon twoColorFeatures (3 / 10) = 3 / 10 + 0.15 \<and>
   categoryFactor classTaxon orchidFeatures (3 / 10) = 3 / 10 \<and>
   categoryFactor classTaxon beetleFeatures (3 / 10) = 3 / 10 \<and>
   categoryFactor classTaxon errorFeatures (3 / 10) = 3 / 10 \<and>
   categoryFactor classTaxon uncategorisedFeatures (3 / 10) = 3 / 10 \<and>
   categoryFactor unlabelledTaxon twoColorFeatures (3 / 10) = 3 / 10"
proof -
  have names: "iconic_taxon_name fernFamily = Some ''Plantae''"
    "iconic_taxon_name classTaxon = Some ''Insecta''"
    "iconic_taxon_name unlabelledTaxon = None"
    by (simp_all add: fernFamily_def classTaxon_def unlabelledTaxon_def)
  have cats: "category capitalPlantFeatures = Some ''Plant''"
    "category twoColorFeatures = Some ''animal''"
    "category orchidFeatures = Some ''plant''"
    "category beetleFeatures = Some ''insect''"
    "category errorFeatures = Some ''error''"
    "category uncategorisedFeatures = None"
    by (simp_all add: capitalPlantFeatures_def twoColorFeatures_def orchidFeatures_def
        beetleFeatures_def errorFeatures_def uncategorisedFeatures_def)
  have lower: "toLowerCase ''Plantae'' = ''plantae''" "toLowerCase ''Plant'' = ''plant''"
    "toLowerCase ''Insecta'' = ''insecta''" "toLowerCase ''animal'' = ''animal''"
    "toLowerCase ''plant'' = ''plant''" "toLowerCase ''insect'' = ''insect''"
    "toLowerCase ''error'' = ''error''"
    by (simp_all add: toLowerCase_simps lowerChar_def)
  note main = categoryFactor_plant_or_animal_only
  have bonus: "(categoryFactor t f s = s + 0.15) =
      (\<exists>iconic c. iconic_taxon_name t = Some iconic \<and> category f = Some c \<and>
         ((toLowerCase iconic = ''plantae'' \<and> toLowerCase c = ''plant'') \<or>
          (iconic \<noteq> [] \<and> toLowerCase iconic \<noteq> ''plantae'' \<and> toLowerCase c = ''animal'')))"
    for t f s
    using main [of t f s] by blast
  have none: "lowerOrEmpty (category f) \<noteq> ''plant'' \<Longrightarrow> lowerOrEmpty (category f) \<noteq> ''animal'' \<Longrightarrow>
      categoryFactor t f s = s" for t f s
    using main [of t f s] by blast
  have missing: "\<not> truthy (iconic_taxon_name t) \<Longrightarrow> categoryFactor t f s = s" for t f s
    using main [of t f s] by blast
  have shape: "categoryFactor t f s = s + 0.15 \<or> categoryFactor t f s = s" for t f s
    using main [of t f s] by blast
  have 1: "categoryFactor fernFamily capitalPlantFeatures (3 / 10) = 3 / 10 + 0.15"
    unfolding bonus by (simp add: names cats lower)
  have 2: "categoryFactor classTaxon twoColorFeatures (3 / 10) = 3 / 10 + 0.15"
    unfolding bonus by (simp add: names cats lower)
  have "categoryFactor classTaxon orchidFeatures (3 / 10) \<noteq> 3 / 10 + 0.15"
    unfolding bonus by (simp add: names cats lower)
  with shape [of classTaxon orchidFeatures "3 / 10"]
  have 3: "categoryFactor classTaxon orchidFeatures (3 / 10) = 3 / 10" by blast
  have 4: "categoryFactor classTaxon beetleFeatures (3 / 10) = 3 / 10"
    by (rule none) (simp_all add: cats lower)
  have 5: "categoryFactor classTaxon errorFeatures (3 / 10) = 3 / 10"
    by (rule none) (simp_all add: cats lower)
  have 6: "categoryFactor classTaxon uncategorisedFeatures (3 / 10) = 3 / 10"
    by (rule none) (simp_all add: cats)
  have 7: "categoryFactor unlabelledTaxon twoColorFeatures (3 / 10) = 3 / 10"
    by (rule missing) (simp add: names)
  from 1 2 3 4 5 6 7 show ?thesis by blast
qed


section \<open>Properties of the known-beetle heuristic\<close>

text \<open>
  C10.  \<^verbatim>\<open>checkForKnownAmazonianBeetles\<close> returns the empty list when a location outside
  the Amazon box is supplied, and when the features are neither of category insect nor
  carry a hint that mentions insect, beetle or coleoptera.  With no location the keyword
  rules run on the features alone, and they can return a species name.
\<close>

theorem checkForKnownAmazonianBeetles_gates:
  "(loc = Some l \<and> loc_coords l = Some c \<and> \<not> isInAmazon (lat c) (lng c) \<longrightarrow>
      checkForKnownAmazonianBeetles feats loc = []) \<and>
   (category feats \<noteq> Some ''insect'' \<and>
    (\<forall>hs. taxonomicHints feats = Some hs \<longrightarrow>
       (\<forall>h \<in> set (hintValues hs).
          \<not> js_includes (toLowerCase h) ''insect'' \<and>
          \<not> js_includes (toLowerCase h) ''beetle'' \<and>
          \<not> js_includes (toLowerCase h) ''coleoptera'')) \<longrightarrow>
      checkForKnownAmazonianBeetles feats loc = []) \<and>
   checkForKnownAmazonianBeetles feats None =
     (if isInsect feats then knownBeetleMatches (visualDescription feats) else []) \<and>
   (\<exists>feats'. checkForKnownAmazonianBeetles feats' None \<noteq> [])"
proof -
  have outside: "loc = Some l \<and> loc_coords l = Some c \<and> \<not> isInAmazon (lat c) (lng c) \<longrightarrow>
      checkForKnownAmazonianBeetles feats loc = []"
    by (simp add: checkForKnownAmazonianBeetles_def locationInAmazon_def)
  have notInsect: "category feats \<noteq> Some ''insect'' \<and>
    (\<forall>hs. taxonomicHints feats = Some hs \<longrightarrow>
       (\<forall>h \<in> set (hintValues hs).
          \<not> js_includes (toLowerCase h) ''insect'' \<and>
          \<not> js_includes (toLowerCase h) ''beetle'' \<and>
          \<not> js_includes (toLowerCase h) ''coleoptera'')) \<longrightarrow>
      checkForKnownAmazonianBeetles feats loc = []"
    by (auto simp: checkForKnownAmazonianBeetles_def isInsect_def hintIsInsect_def list_ex_iff
        split: option.splits)
  have noLocation: "checkForKnownAmazonianBeetles feats None =
     (if isInsect feats then knownBeetleMatches (visualDescription feats) else [])"
    by (simp add: checkForKnownAmazonianBeetles_def locationInAmazon_def)
  have "checkForKnownAmazonianBeetles beetleFeatures None = [''Phanaeus lancifer'']"
    by (simp add: checkForKnownAmazonianBeetles_def locationInAmazon_def isInsect_def
        beetleFeatures_def visualDescription_def visualList_def knownBeetleMatches_def
        toLowerCase_simps lowerChar_def)
  then have ex: "\<exists>feats'. checkForKnownAmazonianBeetles feats' None \<noteq> []"
    by (metis list.distinct(1))
  from outside notInsect noLocation ex show ?thesis by blast
qed

theorem checkForKnownAmazonianBeetles_gates_witness:
  "checkForKnownAmazonianBeetles beetleFeatures (Some saoPauloLocation) = [] \<and>
   checkForKnownAmazonianBeetles orchidFeatures None = [] \<and>
   checkForKnownAmazonianBeetles orchidFeatures (Some saoPauloLocation) = []"
proof -
  have a: "\<not> isInAmazon (lat saoPauloCoords) (lng saoPauloCoords)"
    by (simp add: isInAmazon_def saoPauloCoords_def)
  have b: "loc_coords saoPauloLocation = Some saoPauloCoords"
    by (simp add: saoPauloLocation_def)
  have c: "category orchidFeatures \<noteq> Some ''insect''"
    by (simp add: orchidFeatures_def)
  have d: "\<forall>hs. taxonomicHints orchidFeatures = Some hs \<longrightarrow>
       (\<forall>h \<in> set (hintValues hs).
          \<not> js_includes (toLowerCase h) ''insect'' \<and>
          \<not> js_includes (toLowerCase h) ''beetle'' \<and>
          \<not> js_includes (toLowerCase h) ''coleoptera'')"
    by (simp add: orchidFeatures_def toLowerCase_simps lowerChar_def)
  show ?thesis
    using checkForKnownAmazonianBeetles_gates
        [of "Some saoPauloLocation" saoPauloLocation saoPauloCoords beetleFeatures]
      checkForKnownAmazonianBeetles_gates [of None saoPauloLocation saoPauloCoords orchidFeatures]
      checkForKnownAmazonianBeetles_gates
        [of "Some saoPauloLocation" saoPauloLocation saoPauloCoords orchidFeatures]
      a b c d
    by blast
qed


section \<open>Properties of the region classification\<close>

lemma find_first_match:
  "i < length bs \<Longrightarrow> P (bs ! i) \<Longrightarrow> \<forall>j<i. \<not> P (bs ! j) \<Longrightarrow> find P bs = Some (bs ! i)"
proof (induction bs arbitrary: i)
  case Nil
  then show ?case by simp
next
  case (Cons b bs)
  show ?case
  proof (cases i)
    case 0
    with Cons.prems show ?thesis by simp
  next
    case (Suc k)
    from Cons.prems(3) Suc have "\<not> P ((b # bs) ! 0)" by blast
    then have nb: "\<not> P b" by simp
    have "\<forall>j<k. \<not> P (bs ! j)"
    proof (intro allI impI)
      fix j assume "j < k"
      then have "Suc j < i" using Suc by simp
      with Cons.prems(3) have "\<not> P ((b # bs) ! Suc j)" by blast
      then show "\<not> P (bs ! j)" by simp
    qed
    moreover have "k < length bs" "P (bs ! k)" using Cons.prems Suc by simp_all
    ultimately have "find P bs = Some (bs ! k)" using Cons.IH by blast
    with nb Suc show ?thesis by simp
  qed
qed

lemma classifyRegion_Nil: "classifyRegion [] d la lo = d"
  by (simp add: classifyRegion_def)

lemma classifyRegion_Cons:
  "classifyRegion (b # bs) d la lo =
     (if inBox b la lo then box_name b else classifyRegion bs d la lo)"
  by (simp add: classifyRegion_def)

lemma regionName_scan:
  "regionName la lo = classifyRegion promptBoxes ''unknown region'' la lo"
  by (simp add: regionName_def promptBoxes_def classifyRegion_Nil classifyRegion_Cons inBox_def
      cong del: if_weak_cong split del: if_split)

lemma regionDescription_scan:
  "regionDescription la lo = classifyRegion locationMatchBoxes ''this region'' la lo"
  by (simp add: regionDescription_def locationMatchBoxes_def formatBiomeBoxes_def
      continentBoxes_def classifyRegion_Nil classifyRegion_Cons inBox_def conj_ac
      cong del: if_weak_cong split del: if_split)

text \<open>
  C7.  Both region chains are first-match scans over their ordered tables, biome boxes
  before continent boxes: a point gets the name of the first listed box that contains it,
  so the name of the only box that contains it, and the name of the earlier one of two
  overlapping boxes (the Amazon box is listed before the Cerrado box).
\<close>

theorem region_classification_first_match:
  assumes "i < length locationMatchBoxes" and "inBox (locationMatchBoxes ! i) la lo"
    and "k < length promptBoxes" and "inBox (promptBoxes ! k) la' lo'"
  shows "regionDescription la lo = classifyRegion locationMatchBoxes ''this region'' la lo \<and>
         regionName la' lo' = classifyRegion promptBoxes ''unknown region'' la' lo' \<and>
         ((\<forall>j<i. \<not> inBox (locationMatchBoxes ! j) la lo) \<longrightarrow>
            regionDescription la lo = box_name (locationMatchBoxes ! i)) \<and>
         ((\<forall>j<length locationMatchBoxes. j \<noteq> i \<longrightarrow> \<not> inBox (locationMatchBoxes ! j) la lo) \<longrightarrow>
            regionDescription la lo = box_name (locationMatchBoxes ! i)) \<and>
         ((\<forall>j<k. \<not> inBox (promptBoxes ! j) la' lo') \<longrightarrow>
            regionName la' lo' = box_name (promptBoxes ! k)) \<and>
         ((\<forall>j<length promptBoxes. j \<noteq> k \<longrightarrow> \<not> inBox (promptBoxes ! j) la' lo') \<longrightarrow>
            regionName la' lo' = box_name (promptBoxes ! k))"
proof -
  have first: "classifyRegion bs d x y = box_name (bs ! n)"
    if "n < length bs" "inBox (bs ! n) x y" "\<forall>j<n. \<not> inBox (bs ! j) x y" for bs d x y n
    using find_first_match [of n bs "\<lambda>b. inBox b x y"] that
    by (simp add: classifyRegion_def)
  have only: "\<forall>j<n. \<not> inBox (bs ! j) x y"
    if "n < length bs" "\<forall>j<length bs. j \<noteq> n \<longrightarrow> \<not> inBox (bs ! j) x y" for bs x y n
    using that by auto
  show ?thesis
    using first [OF assms(1,2)] first [OF assms(3,4)] only [OF assms(1)] only [OF assms(3)]
    by (simp add: regionDescription_scan regionName_scan)
qed

theorem region_classification_first_match_witness:
  "regionDescription (-7) (-57) = ''the Amazon rainforest'' \<and>
   inBox (locationMatchBoxes ! 0) (-7) (-57) \<and> inBox (locationMatchBoxes ! 2) (-7) (-57) \<and>
   regionName (-7) (-57) = ''Amazon rainforest'' \<and>
   inBox (promptBoxes ! 0) (-7) (-57) \<and> inBox (promptBoxes ! 2) (-7) (-57) \<and>
   regionDescription 50 10 = ''Europe'' \<and>
   regionName (-4) (-40) = ''Caatinga dry forest''"
proof -
  have a: "inBox (locationMatchBoxes ! 0) (-7) (-57)" "inBox (locationMatchBoxes ! 2) (-7) (-57)"
    "inBox (promptBoxes ! 0) (-7) (-57)" "inBox (promptBoxes ! 2) (-7) (-57)"
    by (simp_all add: locationMatchBoxes_def formatBiomeBoxes_def promptBoxes_def inBox_def)
  have len: "length locationMatchBoxes = 11" "length promptBoxes = 5"
    by (simp_all add: locationMatchBoxes_def formatBiomeBoxes_def continentBoxes_def promptBoxes_def)
  have names: "box_name (locationMatchBoxes ! 0) = ''the Amazon rainforest''"
    "box_name (promptBoxes ! 0) = ''Amazon rainforest''"
    "box_name (locationMatchBoxes ! 7) = ''Europe''"
    "box_name (promptBoxes ! 4) = ''Caatinga dry forest''"
    by (simp_all add: locationMatchBoxes_def formatBiomeBoxes_def continentBoxes_def promptBoxes_def)
  have amazon: "regionDescription (-7) (-57) = ''the Amazon rainforest'' \<and>
      regionName (-7) (-57) = ''Amazon rainforest''"
    using region_classification_first_match [of 0 "-7" "-57" 0 "-7" "-57"] a len names by auto
  have e: "inBox (locationMatchBoxes ! 7) 50 10"
    by (simp add: locationMatchBoxes_def formatBiomeBoxes_def continentBoxes_def inBox_def)
  have eo: "\<forall>j<length locationMatchBoxes. j \<noteq> 7 \<longrightarrow> \<not> inBox (locationMatchBoxes ! j) 50 10"
    by (simp add: locationMatchBoxes_def formatBiomeBoxes_def continentBoxes_def inBox_def
        nth_Cons' less_Suc_eq numeral_eq_Suc)
  have p: "inBox (promptBoxes ! 4) (-4) (-40)"
    by (simp add: promptBoxes_def inBox_def)
  have po: "\<forall>j<length promptBoxes. j \<noteq> 4 \<longrightarrow> \<not> inBox (promptBoxes ! j) (-4) (-40)"
    by (simp add: promptBoxes_def inBox_def nth_Cons' less_Suc_eq numeral_eq_Suc)
  have europe: "regionDescription 50 10 = ''Europe'' \<and> regionName (-4) (-40) = ''Caatinga dry forest''"
    using region_classification_first_match [of 7 50 10 4 "-4" "-40"] e eo p po len names by auto
  from a amazon europe show ?thesis by simp
qed



section \<open>Properties of the geographic data\<close>





















section \<open>Properties of the candidate search\<close>

lemma score_family: "calculateMatchScore fernFamily [] fernFeatures None = 1 / 10"
  by (simp add: calculateMatchScore_def accumulatedScore_def specificityFactor_def
      visualFactor_def visualCounts_def allTextOf_def categoryFactor_def
      localObservationFactor_def genericityOverride_def regionPenalty_def rankAtMost_def
      fernFamily_def fernFeatures_def toLowerCase_simps lowerChar_def)

lemma score_species: "calculateMatchScore fernSpecies [] fernFeatures None = 45 / 100"
  by (simp add: calculateMatchScore_def accumulatedScore_def specificityFactor_def
      visualFactor_def visualCounts_def allTextOf_def categoryFactor_def
      localObservationFactor_def genericityOverride_def regionPenalty_def rankAtMost_def
      fernSpecies_def fernFeatures_def toLowerCase_simps lowerChar_def)

lemma fern_colors: "extractPrimaryColors fernFeatures = []"
  by (simp add: extractPrimaryColors_def fernFeatures_def primaryColorsOfColor_def
      toLowerCase_simps lowerChar_def)

lemma fern_beetles: "checkForKnownAmazonianBeetles fernFeatures None = []"
  by (simp add: checkForKnownAmazonianBeetles_def isInsect_def fernFeatures_def locationInAmazon_def)

lemma fern_merged: "mergedTaxa fernDatabase fernFeatures None = Inr [fernFamily, fernSpecies]"
  by (simp add: mergedTaxa_def fern_beetles searchQueries_def queriesFor_def regionPrefix_def)
     (simp add: fernFeatures_def fernDatabase_def queriesFor_def fernFamily_def fernSpecies_def)

lemma fern_fetch: "fetchObservations fernDatabase None t = Inr []"
  by (simp add: fetchObservations_def fernDatabase_def)

lemma fern_sorted:
  "taxaWithObservations fernDatabase fernFeatures None =
     Inr [\<lparr>cand_taxon = fernSpecies, cand_observations = [], matchScore = 45 / 100\<rparr>,
          \<lparr>cand_taxon = fernFamily, cand_observations = [], matchScore = 1 / 10\<rparr>]"
  by (simp add: taxaWithObservations_def fern_merged fern_fetch sortByScore_def
      score_family score_species)


















lemma fern_search:
  "searchObservationsByFeatures fernDatabase fernFeatures None =
     Inr \<lparr>results =
            [\<lparr>cand_taxon = fernSpecies, cand_observations = [], matchScore = 45 / 100\<rparr>,
             \<lparr>cand_taxon = fernFamily, cand_observations = [], matchScore = 1 / 10\<rparr>],
          totalMatches = 2\<rparr>"
  by (simp add: searchObservationsByFeatures_def filterResults_def fern_sorted fern_colors keepResult_def)





section \<open>Properties of the selection of the top matches\<close>


















lemma candidate_eta:
  "\<lparr>cand_taxon = cand_taxon (tierCandidate i r sc), cand_observations = [], matchScore = sc\<rparr> =
     tierCandidate i r sc"
  "\<lparr>cand_taxon = cand_taxon (greenCandidate i r sc), cand_observations = [], matchScore = sc\<rparr> =
     greenCandidate i r sc"
  by (simp_all add: tierCandidate_def greenCandidate_def)











section \<open>Properties of the identification pipeline\<close>

lemma models_distinct: "MODELS_BACKUP \<noteq> MODELS_PRIMARY"
  by (simp add: MODELS_BACKUP_def MODELS_PRIMARY_def)

lemma noMatchBranch_throws:
  "noMatchBranch feats = Inl (ReferenceError ''primaryColors is not defined'')"
  by (simp add: noMatchBranch_def noMatchScope_def)

lemma imageUrlOf_nonempty: "imageData \<noteq> [] \<Longrightarrow> imageUrlOf imageData \<noteq> []"
  by (simp add: imageUrlOf_def Let_def)

lemma searchQueries_empty:
  assumes "searchTerms feats = None \<or> searchTerms feats = Some []"
    and "\<forall>hs. taxonomicHints feats = Some hs \<longrightarrow> hintValues hs = []"
  shows "searchQueries feats loc = []"
proof -
  have terms: "(case searchTerms feats of
        None \<Rightarrow> []
      | Some ts \<Rightarrow> if length ts > 0 then queriesFor (regionPrefix loc) (take 3 ts) else []) = []"
    using assms(1) by auto
  have hints: "(case taxonomicHints feats of
        Some (HintsArray hs) \<Rightarrow>
          if length hs > 0 then queriesFor (regionPrefix loc) (take 2 hs) else []
      | _ \<Rightarrow> []) = []"
  proof (cases "taxonomicHints feats")
    case None
    then show ?thesis by simp
  next
    case (Some h)
    with assms(2) have "hintValues h = []" by simp
    with Some show ?thesis by (cases h) simp_all
  qed
  show ?thesis unfolding searchQueries_def terms hints by simp
qed

lemma search_without_queries:
  assumes "searchTerms feats = None \<or> searchTerms feats = Some []"
    and "\<forall>hs. taxonomicHints feats = Some hs \<longrightarrow> hintValues hs = []"
    and "checkForKnownAmazonianBeetles feats loc = []"
  shows "searchObservationsByFeatures db feats loc = Inr \<lparr>results = [], totalMatches = 0\<rparr>"
proof -
  have "mergedTaxa db feats loc = Inr []"
    by (simp add: mergedTaxa_def searchQueries_empty [OF assms(1,2)] assms(3))
  then have "taxaWithObservations db feats loc = Inr []"
    by (simp add: taxaWithObservations_def sortByScore_def)
  then show ?thesis by (simp add: searchObservationsByFeatures_def filterResults_def)
qed

lemma featurePath_without_matches:
  assumes "parseAnswer env content = Some aiData"
    and "featureExtraction aiData = Some extracted"
    and "searchObservationsByFeatures (inat env) (prepareFeatures extracted locationData)
           locationData = Inr \<lparr>results = [], totalMatches = 0\<rparr>"
  shows "featurePath env locationData content = None"
  using assms by (simp add: featurePath_def Let_def noMatchBranch_throws)

lemma afterFeaturePath_returns: "\<exists>r. fst (afterFeaturePath env m d calls b) = Inr r"
  by (simp add: afterFeaturePath_def split: option.splits sum.splits)

lemma afterFeaturePath_calls:
  "snd (afterFeaturePath env m d calls b) = calls \<or>
   (m = MODELS_PRIMARY \<and> snd (afterFeaturePath env m d calls b) = calls @ [b])"
  by (simp add: afterFeaturePath_def split: option.splits sum.splits)

lemma afterCascade_calls:
  "snd (afterCascade env loc m resp calls b) = calls \<or>
   (m = MODELS_PRIMARY \<and> snd (afterCascade env loc m resp calls b) = calls @ [b])"
  using afterFeaturePath_calls [of env m _ calls b]
  by (auto simp: afterCascade_def split: option.splits)

lemma cascade_sends_at_most_two_requests:
  "snd (identifyWithOpenRouter env imageData locationData apiKey) \<in>
     {[], [requestFor MODELS_PRIMARY locationData imageData],
      [requestFor MODELS_PRIMARY locationData imageData,
       requestFor MODELS_BACKUP locationData imageData]}"
proof -
  let ?p = "requestFor MODELS_PRIMARY locationData imageData"
  let ?b = "requestFor MODELS_BACKUP locationData imageData"
  have primary: "snd (afterCascade env locationData MODELS_PRIMARY resp [?p] ?b) \<in> {[?p], [?p, ?b]}"
    for resp
    using afterCascade_calls [of env locationData MODELS_PRIMARY resp "[?p]" ?b] by auto
  have backup: "snd (afterCascade env locationData MODELS_BACKUP resp [?p, ?b] ?b) = [?p, ?b]"
    for resp
    using afterCascade_calls [of env locationData MODELS_BACKUP resp "[?p, ?b]" ?b]
      models_distinct by auto
  show ?thesis
    using primary backup
    by (auto simp: identifyWithOpenRouter_def Let_def split: sum.splits)
qed

lemma cascade_retries_once:
  assumes "truthy apiKey" and "imageData \<noteq> []"
    and "openrouter env (requestFor MODELS_PRIMARY locationData imageData) = Inr response1"
    and "resp_status response1 = 429 \<or> resp_status response1 = 402"
  shows "snd (identifyWithOpenRouter env imageData locationData apiKey) =
     [requestFor MODELS_PRIMARY locationData imageData,
      requestFor MODELS_BACKUP locationData imageData]"
proof -
  let ?p = "requestFor MODELS_PRIMARY locationData imageData"
  let ?b = "requestFor MODELS_BACKUP locationData imageData"
  have backup: "snd (afterCascade env locationData MODELS_BACKUP resp [?p, ?b] ?b) = [?p, ?b]"
    for resp
    using afterCascade_calls [of env locationData MODELS_BACKUP resp "[?p, ?b]" ?b]
      models_distinct by auto
  show ?thesis
    using assms backup imageUrlOf_nonempty [OF assms(2)]
    by (auto simp: identifyWithOpenRouter_def Let_def split: sum.splits)
qed

lemma cascade_both_limited:
  assumes "truthy apiKey" and "imageData \<noteq> []"
    and "openrouter env (requestFor MODELS_PRIMARY locationData imageData) = Inr response1"
    and "resp_status response1 = 429 \<or> resp_status response1 = 402"
    and "openrouter env (requestFor MODELS_BACKUP locationData imageData) = Inr response2"
    and "resp_status response2 = 429 \<or> resp_status response2 = 402"
  shows "fst (identifyWithOpenRouter env imageData locationData apiKey) =
           Inr (errorIdentification ''Rate Limit Exceeded'') \<or>
         fst (identifyWithOpenRouter env imageData locationData apiKey) =
           Inr (errorIdentification ''API Usage Limit Reached'')"
proof -
  have notok: "\<not> resp_ok response2" using assms(6) by (auto simp: resp_ok_def)
  have "handleHttpError MODELS_BACKUP response2 = Inr (errorIdentification ''Rate Limit Exceeded'') \<or>
        handleHttpError MODELS_BACKUP response2 = Inr (errorIdentification ''API Usage Limit Reached'')"
    using assms(6) by (auto simp: handleHttpError_def Let_def split: option.splits)
  then show ?thesis
    using assms(1,3,4,5) notok imageUrlOf_nonempty [OF assms(2)] assms(2)
    by (auto simp: identifyWithOpenRouter_def afterCascade_def Let_def)
qed

lemma matchResult_untagged:
  "res_modelUsed (matchResult feats topMatch rs) = None \<and>
   res_status (matchResult feats topMatch rs) = Some ''success''"
  by (simp add: matchResult_def Let_def split: list.splits)

lemma featurePath_untagged:
  "featurePath env locationData content = Some r \<Longrightarrow> res_modelUsed r = None"
  by (auto simp: featurePath_def Let_def noMatchBranch_throws matchResult_untagged
      split: option.splits sum.splits list.splits)

lemma prepare_fern: "prepareFeatures fernFeatures None = fernFeatures"
  by (simp add: prepareFeatures_def addRegionalTerms_def addAmazonSpecies_def convertHints_def
      addSpecificTerms_def fernFeatures_def)

lemma fern_geo: "\<exists>g. getTaxonGeographicData fernDatabase i = Inr g"
  by (simp add: getTaxonGeographicData_def fernDatabase_def)

lemma fern_featurePath:
  "featurePath cascadeEnvironment None answerText =
     Some (matchResult fernFeatures
            \<lparr>cand_taxon = fernSpecies, cand_observations = [], matchScore = 45 / 100\<rparr>
            [\<lparr>cand_taxon = fernSpecies, cand_observations = [], matchScore = 45 / 100\<rparr>,
             \<lparr>cand_taxon = fernFamily, cand_observations = [], matchScore = 1 / 10\<rparr>])"
proof -
  obtain g where "getTaxonGeographicData fernDatabase (taxon_id fernSpecies) = Inr g"
    using fern_geo by blast
  then show ?thesis
    by (simp add: featurePath_def cascadeEnvironment_def prepare_fern fern_search)
qed

text \<open>
  C4.  The parts on the requests hold: at most two requests are ever sent, a primary answer
  with status 429 or 402 is followed by exactly one request to the backup model with the
  same prompt and image, and two limited answers give a usage-limit error result (the
  three lemmas above).  The tag does not: when the primary model answers 429 and the
  backup model answers with features that match the database, the result of the matching
  branch is returned with status success and without the identifier of the model, whereas
  the results of the older answer format and the fallback result carry it.
\<close>

theorem backup_success_is_not_tagged:
  "map req_model (snd (identifyWithOpenRouter cascadeEnvironment ''abc'' None (Some ''key''))) =
     [MODELS_PRIMARY, MODELS_BACKUP] \<and>
   map_sum id res_status (fst (identifyWithOpenRouter cascadeEnvironment ''abc'' None (Some ''key''))) =
     Inr (Some ''success'') \<and>
   map_sum id res_modelUsed (fst (identifyWithOpenRouter cascadeEnvironment ''abc'' None (Some ''key''))) =
     Inr None"
proof -
  have calls: "openrouter cascadeEnvironment (requestFor MODELS_PRIMARY None ''abc'') = Inr limitResponse"
    "openrouter cascadeEnvironment (requestFor MODELS_BACKUP None ''abc'') = Inr okResponse"
    using models_distinct by (simp_all add: cascadeEnvironment_def requestFor_def)
  have ok: "resp_ok okResponse" "resp_status limitResponse = 429"
    "resp_json okResponse = Some \<lparr>data_error = None, data_choices = Some [Some answerText]\<rparr>"
    by (simp_all add: resp_ok_def okResponse_def limitResponse_def)
  have content: "firstContent \<lparr>data_error = None, data_choices = Some [Some answerText]\<rparr> = Some answerText"
    by (simp add: firstContent_def answerText_def)
  have url: "imageUrlOf ''abc'' \<noteq> []" by (rule imageUrlOf_nonempty) simp
  have "identifyWithOpenRouter cascadeEnvironment ''abc'' None (Some ''key'') =
      (Inr (matchResult fernFeatures
            \<lparr>cand_taxon = fernSpecies, cand_observations = [], matchScore = 45 / 100\<rparr>
            [\<lparr>cand_taxon = fernSpecies, cand_observations = [], matchScore = 45 / 100\<rparr>,
             \<lparr>cand_taxon = fernFamily, cand_observations = [], matchScore = 1 / 10\<rparr>]),
       [requestFor MODELS_PRIMARY None ''abc'', requestFor MODELS_BACKUP None ''abc''])"
    using url
    by (simp add: identifyWithOpenRouter_def Let_def calls ok afterCascade_def content
        fern_featurePath)
  then show ?thesis by (simp add: matchResult_untagged requestFor_def)
qed

text \<open>
  C3.  The vision model answers with features that have empty search terms, empty
  taxonomic hints and no specific identification, and there is no location.  The matcher
  finds no candidate and does not raise.  The branch without matches then does not return
  its result (status no_match, confidence 0.3, the features): its object literal reads
  \<^verbatim>\<open>primaryColors\<close>, which is declared in the other branch, and the ReferenceError is
  caught by the surrounding try statement.  The function goes on and returns the result
  for an answer without identification: unknown species, confidence 0.5, no status, no
  features.
\<close>

theorem no_match_result_is_lost:
  "searchTerms plainFeatures = Some [] \<and>
   taxonomicHints plainFeatures = Some (HintsArray []) \<and>
   prepareFeatures plainFeatures None = plainFeatures \<and>
   searchObservationsByFeatures (inat noMatchEnvironment) plainFeatures None =
     Inr \<lparr>results = [], totalMatches = 0\<rparr> \<and>
   noMatchBranch plainFeatures = Inl (ReferenceError ''primaryColors is not defined'') \<and>
   identifyWithOpenRouter noMatchEnvironment ''abc'' None (Some ''key'') =
     (Inr (fallbackIdentification answerText MODELS_PRIMARY),
      [requestFor MODELS_PRIMARY None ''abc'']) \<and>
   res_name (fallbackIdentification answerText MODELS_PRIMARY) = Some ''Unknown Species'' \<and>
   res_confidence (fallbackIdentification answerText MODELS_PRIMARY) = 5 / 10 \<and>
   res_status (fallbackIdentification answerText MODELS_PRIMARY) = None \<and>
   res_featuresUsed (fallbackIdentification answerText MODELS_PRIMARY) = None \<and>
   res_status (noMatchPayload plainFeatures) = Some ''no_match'' \<and>
   res_confidence (noMatchPayload plainFeatures) = 3 / 10 \<and>
   res_featuresUsed (noMatchPayload plainFeatures) = Some plainFeatures"
proof -
  have terms: "searchTerms plainFeatures = Some []"
    "taxonomicHints plainFeatures = Some (HintsArray [])"
    by (simp_all add: plainFeatures_def)
  have prep: "prepareFeatures plainFeatures None = plainFeatures"
    by (simp add: prepareFeatures_def addRegionalTerms_def addAmazonSpecies_def convertHints_def
      addSpecificTerms_def plainFeatures_def)
  have beetles: "checkForKnownAmazonianBeetles plainFeatures None = []"
    by (simp add: checkForKnownAmazonianBeetles_def isInsect_def plainFeatures_def)
  have st: "searchTerms plainFeatures = None \<or> searchTerms plainFeatures = Some []"
    by (simp add: terms)
  have th: "\<forall>hs. taxonomicHints plainFeatures = Some hs \<longrightarrow> hintValues hs = []"
    by (simp add: terms)
  have search: "searchObservationsByFeatures (inat noMatchEnvironment) plainFeatures None =
      Inr \<lparr>results = [], totalMatches = 0\<rparr>"
    by (rule search_without_queries [OF st th beetles])
  have pa: "parseAnswer noMatchEnvironment answerText =
      Some \<lparr>featureExtraction = Some plainFeatures, identificationAnswer = None\<rparr>"
    by (simp add: noMatchEnvironment_def)
  have fe: "featureExtraction \<lparr>featureExtraction = Some plainFeatures,
      identificationAnswer = None\<rparr> = Some plainFeatures"
    by simp
  have fp: "featurePath noMatchEnvironment None answerText = None"
    by (rule featurePath_without_matches [OF pa fe]) (simp only: prep search)
  have call: "openrouter noMatchEnvironment (requestFor MODELS_PRIMARY None ''abc'') = Inr okResponse"
    by (simp add: noMatchEnvironment_def)
  have ok: "resp_ok okResponse" "resp_status okResponse = 200"
    "resp_json okResponse = Some \<lparr>data_error = None, data_choices = Some [Some answerText]\<rparr>"
    by (simp_all add: resp_ok_def okResponse_def)
  have content: "firstContent \<lparr>data_error = None, data_choices = Some [Some answerText]\<rparr> = Some answerText"
    "answerText \<noteq> []"
    by (simp_all add: firstContent_def answerText_def)
  have fin: "finish noMatchEnvironment MODELS_PRIMARY
      \<lparr>data_error = None, data_choices = Some [Some answerText]\<rparr> =
      fallbackIdentification answerText MODELS_PRIMARY"
    using content(2) by (simp add: finish_def pa)
  have url: "imageUrlOf ''abc'' \<noteq> []" by (rule imageUrlOf_nonempty) simp
  have run: "identifyWithOpenRouter noMatchEnvironment ''abc'' None (Some ''key'') =
     (Inr (fallbackIdentification answerText MODELS_PRIMARY),
      [requestFor MODELS_PRIMARY None ''abc''])"
    using url
    by (simp add: identifyWithOpenRouter_def Let_def call ok afterCascade_def content fp
        afterFeaturePath_def fin)
  have fallback: "res_name (fallbackIdentification answerText MODELS_PRIMARY) = Some ''Unknown Species''"
    "res_confidence (fallbackIdentification answerText MODELS_PRIMARY) = 5 / 10"
    "res_status (fallbackIdentification answerText MODELS_PRIMARY) = None"
    "res_featuresUsed (fallbackIdentification answerText MODELS_PRIMARY) = None"
    by (simp_all add: fallbackIdentification_def)
  have payload: "res_status (noMatchPayload plainFeatures) = Some ''no_match''"
    "res_confidence (noMatchPayload plainFeatures) = 3 / 10"
    "res_featuresUsed (noMatchPayload plainFeatures) = Some plainFeatures"
    by (simp_all add: noMatchPayload_def hasSpecificID_def plainFeatures_def)
  from terms prep search noMatchBranch_throws [of plainFeatures] run fallback payload
  show ?thesis by blast
qed

end
